theory Spec2Isabelle
  imports Main "HOL-Library.Multiset"
begin

section \<open>Data model of the Cluster controller\<close>

text \<open>
  The embedding follows \<^verbatim>\<open>controllers/cluster_controller.go\<close>. Go structs are records,
  interfaces with several implementations are datatypes, a nil-able pointer is an
  \<open>option\<close>, an \<^verbatim>\<open>error\<close> return is an \<open>error option\<close> (\<open>None\<close> is nil) and a
  \<^verbatim>\<open>(value, error)\<close> return whose value is dropped on error is a sum (\<open>Inl\<close> the
  error). Durations are \<^verbatim>\<open>time.Duration\<close> values, an integer number of nanoseconds.
\<close>

type_synonym duration = int

text \<open>\<^verbatim>\<open>metav1.Time\<close>: ticks since the zero instant; the zero instant itself is \<open>0\<close>.\<close>

type_synonym time = nat

record objectReference =
  APIVersion :: string
  Kind :: string
  RefName :: string

record objectMeta =
  Name :: string
  Namespace :: string
  Labels :: "(string \<times> string) list"
  OwnerReferences :: "objectReference list"
  DeletionTimestamp :: "time option"
  Finalizers :: "string list"

text \<open>\<^verbatim>\<open>(*metav1.Time).IsZero\<close>: a nil pointer or the zero instant.\<close>

definition IsZero :: "time option \<Rightarrow> bool" where
  "IsZero t = (case t of None \<Rightarrow> True | Some x \<Rightarrow> x = 0)"

text \<open>
  The condition types of the API package that the controller names, and any other type.
\<close>

datatype conditionType =
    ReadyCondition
  | ControlPlaneReadyCondition
  | InfrastructureReadyCondition
  | OtherCondition string

datatype conditionStatus = ConditionTrue | ConditionFalse | ConditionUnknown

datatype conditionSeverity =
    ConditionSeverityError
  | ConditionSeverityWarning
  | ConditionSeverityInfo
  | ConditionSeverityNone

text \<open>
  A condition as section 3 of the specification lists it. The last transition time is
  left out: it is read from a clock, and nothing in the controller file reads it back.
\<close>

record condition =
  CondType :: conditionType
  Status :: conditionStatus
  Severity :: conditionSeverity
  Reason :: string
  Message :: string

record cluster =
  ObjectMeta :: objectMeta
  ControlPlaneRef :: "objectReference option"
  InfrastructureRef :: "objectReference option"
  ControlPlaneInitialized :: bool
  Conditions :: "condition list"
  Phase :: string

record machine =
  MachineMeta :: objectMeta
  ClusterName :: string
  NodeRef :: "objectReference option"

text \<open>
  MachineDeployments, MachineSets and MachinePools are only looked at through their
  object metadata; the constructor of \<open>runtimeObject\<close> carries their Go type.
\<close>

type_synonym machineDeployment = objectMeta
type_synonym machineSet = objectMeta
type_synonym machinePool = objectMeta

text \<open>\<^verbatim>\<open>unstructured.Unstructured\<close>: the weakly typed view of a provider object.\<close>

record unstructured =
  UAPIVersion :: string
  UKind :: string
  UName :: string
  UNamespace :: string
  UConditions :: "condition list"

datatype runtimeObject =
    MachineDeploymentObj machineDeployment
  | MachineSetObj machineSet
  | MachineObj machine
  | MachinePoolObj machinePool
  | UnstructuredObj unstructured
  | ClusterObj cluster

text \<open>
  \<^verbatim>\<open>meta.Accessor\<close> on the typed objects the controller handles; it fails on none of
  them, so the error branches after it in the source are dead for these inputs.
\<close>

fun Accessor :: "runtimeObject \<Rightarrow> objectMeta" where
  "Accessor (MachineDeploymentObj x) = x"
| "Accessor (MachineSetObj x) = x"
| "Accessor (MachineObj m) = MachineMeta m"
| "Accessor (MachinePoolObj x) = x"
| "Accessor (UnstructuredObj u) =
     \<lparr>Name = UName u, Namespace = UNamespace u, Labels = [], OwnerReferences = [],
      DeletionTimestamp = None, Finalizers = []\<rparr>"
| "Accessor (ClusterObj c) = ObjectMeta c"

subsection \<open>Errors\<close>

text \<open>
  \<open>NotFound\<close> is an API status error with reason NotFound, \<open>StatusError\<close> any other
  error of the object store. \<open>Wrapf\<close> is \<^verbatim>\<open>errors.Wrapf\<close> of pkg/errors and keeps the
  format string only (no property below reads a message). \<open>Aggregate\<close> is the multi-error of
  \<^verbatim>\<open>kerrors.NewAggregate\<close>.
\<close>

datatype error =
    NotFound string
  | StatusError string
  | Wrapf string error
  | Aggregate "error list"

fun Cause :: "error \<Rightarrow> error" where
  "Cause (Wrapf msg e) = Cause e"
| "Cause e = e"

fun IsNotFound :: "error \<Rightarrow> bool" where
  "IsNotFound (NotFound msg) = True"
| "IsNotFound e = False"

text \<open>\<^verbatim>\<open>kerrors.NewAggregate\<close>: nil entries are dropped; no error left is nil.\<close>

definition NewAggregate :: "error option list \<Rightarrow> error option" where
  "NewAggregate errlist =
     (let errs = concat (map (\<lambda>e. case e of None \<Rightarrow> [] | Some x \<Rightarrow> [x]) errlist)
      in if errs = [] then None else Some (Aggregate errs))"

subsection \<open>Results and requests\<close>

record result =
  Requeue :: bool
  RequeueAfter :: duration

definition emptyResult :: result where
  "emptyResult = \<lparr>Requeue = False, RequeueAfter = 0\<rparr>"

text \<open>\<^verbatim>\<open>deleteRequeueAfter = 5 * time.Second\<close>, in nanoseconds.\<close>

definition deleteRequeueAfter :: duration where
  "deleteRequeueAfter = 5 * 1000000000"

record request =
  ReqNamespace :: string
  ReqName :: string

subsection \<open>The object store and the helpers outside the controller file\<close>

datatype patchOption =
    WithStatusObservedGeneration
  | WithOwnedConditions "conditionType list"

text \<open>
  Every call on the object store is recorded, in order. The answer of the store to a call
  may depend on all calls made before it, so each operation of \<open>env\<close> takes the record
  of earlier calls as its first argument.
\<close>

datatype call =
    GetClusterCall string string
  | ListMachineDeploymentsCall string string
  | ListMachineSetsCall string string
  | ListMachinePoolsCall string string
  | ListMachinesCall string string
  | DeleteCall runtimeObject
  | ExternalGetCall objectReference string
  | GetActiveMachinesCall string string
  | GetClusterByNameCall string string
  | PatchCall cluster "patchOption list"

type_synonym phaseOutcome = "(result \<times> error option) \<times> cluster \<times> call list"

text \<open>
  \<open>env\<close> collects what the controller file takes from elsewhere and only passes
  through: the client (with \<^verbatim>\<open>external.Get\<close> and the lookups of package \<^verbatim>\<open>util\<close> and of
  \<^verbatim>\<open>getActiveMachinesInCluster\<close> that go to it), the patch helper, the feature gate, the
  predicates of packages \<^verbatim>\<open>util\<close> and \<^verbatim>\<open>annotations\<close>, \<^verbatim>\<open>conditions.SetSummary\<close>, and
  the phase functions of \<^verbatim>\<open>cluster_controller_phases.go\<close>. They are parameters: every
  theorem below holds for all of them. Logging is not modelled.
\<close>

record env =
  clientGetCluster :: "call list \<Rightarrow> string \<Rightarrow> string \<Rightarrow> error + cluster"
  listMachineDeployments :: "call list \<Rightarrow> string \<Rightarrow> string \<Rightarrow> error + machineDeployment list"
  listMachineSets :: "call list \<Rightarrow> string \<Rightarrow> string \<Rightarrow> error + machineSet list"
  listMachinePools :: "call list \<Rightarrow> string \<Rightarrow> string \<Rightarrow> error + machinePool list"
  listMachines :: "call list \<Rightarrow> string \<Rightarrow> string \<Rightarrow> error + machine list"
  clientDelete :: "call list \<Rightarrow> runtimeObject \<Rightarrow> error option"
  externalGet :: "call list \<Rightarrow> objectReference \<Rightarrow> string \<Rightarrow> error + unstructured"
  getActiveMachinesInCluster :: "call list \<Rightarrow> string \<Rightarrow> string \<Rightarrow> error + machine list"
  GetClusterByName :: "call list \<Rightarrow> string \<Rightarrow> string \<Rightarrow> error + cluster"
  helperPatch :: "call list \<Rightarrow> cluster \<Rightarrow> patchOption list \<Rightarrow> error option"
  NewHelper :: "cluster \<Rightarrow> error option"
  machinePoolEnabled :: bool
  IsControlPlaneMachine :: "machine \<Rightarrow> bool"
  IsOwnedByObject :: "objectMeta \<Rightarrow> cluster \<Rightarrow> bool"
  IsPaused :: "cluster \<Rightarrow> bool"
  SetSummary :: "cluster \<Rightarrow> conditionType list \<Rightarrow> cluster"
  reconcilePhase :: "cluster \<Rightarrow> cluster"
  reconcileInfrastructure :: "cluster \<Rightarrow> call list \<Rightarrow> phaseOutcome"
  reconcileControlPlane :: "cluster \<Rightarrow> call list \<Rightarrow> phaseOutcome"
  reconcileKubeconfig :: "cluster \<Rightarrow> call list \<Rightarrow> phaseOutcome"

section \<open>splitMachineList\<close>

text \<open>
  The loop of \<^verbatim>\<open>splitMachineList\<close> over \<^verbatim>\<open>list.Items\<close>, with the two lists it appends
  to; the result is \<^verbatim>\<open>(controlplanes, nodes)\<close>.
\<close>

fun splitLoop :: "(machine \<Rightarrow> bool) \<Rightarrow> machine list \<Rightarrow> machine list \<Rightarrow> machine list
    \<Rightarrow> machine list \<times> machine list" where
  "splitLoop isCP [] controlplanes nodes = (controlplanes, nodes)"
| "splitLoop isCP (m # ms) controlplanes nodes =
     (if isCP m then splitLoop isCP ms (controlplanes @ [m]) nodes
      else splitLoop isCP ms controlplanes (nodes @ [m]))"

definition splitMachineList :: "env \<Rightarrow> machine list \<Rightarrow> machine list \<times> machine list" where
  "splitMachineList e list = splitLoop (IsControlPlaneMachine e) list [] []"

section \<open>Finalizers, conditions and results\<close>

text \<open>
  Modelled from the spec: \<^verbatim>\<open>clusterv1.ClusterFinalizer\<close> is declared in the API package,
  which is not among the sources. The specification calls it the finalizer of the Cluster;
  it is one fixed string, and no theorem depends on which.
\<close>

definition ClusterFinalizer :: string where
  "ClusterFinalizer = ''cluster.cluster.x-k8s.io''"

definition setFinalizers :: "cluster \<Rightarrow> string list \<Rightarrow> cluster" where
  "setFinalizers c fs = c\<lparr>ObjectMeta := (ObjectMeta c)\<lparr>Finalizers := fs\<rparr>\<rparr>"

text \<open>
  \<^verbatim>\<open>controllerutil.ContainsFinalizer\<close>, \<^verbatim>\<open>AddFinalizer\<close> (nothing when the
  finalizer is there, else appended) and \<^verbatim>\<open>RemoveFinalizer\<close> (every occurrence goes).
\<close>

definition ContainsFinalizer :: "cluster \<Rightarrow> string \<Rightarrow> bool" where
  "ContainsFinalizer c f = (f \<in> set (Finalizers (ObjectMeta c)))"

definition AddFinalizer :: "cluster \<Rightarrow> string \<Rightarrow> cluster" where
  "AddFinalizer c f =
     (if f \<in> set (Finalizers (ObjectMeta c)) then c
      else setFinalizers c (Finalizers (ObjectMeta c) @ [f]))"

definition RemoveFinalizer :: "cluster \<Rightarrow> string \<Rightarrow> cluster" where
  "RemoveFinalizer c f = setFinalizers c (filter (\<lambda>x. x \<noteq> f) (Finalizers (ObjectMeta c)))"

text \<open>
  Modelled from the spec: the reasons \<^verbatim>\<open>clusterv1.DeletedReason\<close> and
  \<^verbatim>\<open>clusterv1.DeletingReason\<close> are declared in the API package, which is not among the
  sources; section 4.2 names them Deleted and Deleting.
\<close>

definition DeletedReason :: string where
  "DeletedReason = ''Deleted''"

definition DeletingReason :: string where
  "DeletingReason = ''Deleting''"

text \<open>
  Modelled from the spec: package \<^verbatim>\<open>util/conditions\<close> is not among the sources. A
  Cluster holds an ordered set of conditions, one per type (section 3): setting a condition
  replaces the one of its type or appends it.
\<close>

fun setCondition :: "condition list \<Rightarrow> condition \<Rightarrow> condition list" where
  "setCondition [] new = [new]"
| "setCondition (x # xs) new =
     (if CondType x = CondType new then new # xs else x # setCondition xs new)"

fun getCondition :: "condition list \<Rightarrow> conditionType \<Rightarrow> condition option" where
  "getCondition [] t = None"
| "getCondition (x # xs) t = (if CondType x = t then Some x else getCondition xs t)"

definition TrueCondition :: "conditionType \<Rightarrow> condition" where
  "TrueCondition t =
     \<lparr>CondType = t, Status = ConditionTrue, Severity = ConditionSeverityNone,
      Reason = [], Message = []\<rparr>"

definition FalseCondition ::
    "conditionType \<Rightarrow> string \<Rightarrow> conditionSeverity \<Rightarrow> string \<Rightarrow> condition" where
  "FalseCondition t reason severity message =
     \<lparr>CondType = t, Status = ConditionFalse, Severity = severity,
      Reason = reason, Message = message\<rparr>"

text \<open>
  Modelled from the spec: \<^verbatim>\<open>conditions.MarkFalse\<close> (not among the sources) marks the
  condition of the given type False with the given reason, severity and message.
\<close>

definition MarkFalse ::
    "cluster \<Rightarrow> conditionType \<Rightarrow> string \<Rightarrow> conditionSeverity \<Rightarrow> string \<Rightarrow> cluster" where
  "MarkFalse c t reason severity message =
     c\<lparr>Conditions := setCondition (Conditions c) (FalseCondition t reason severity message)\<rparr>"

text \<open>
  Modelled from the spec: \<^verbatim>\<open>conditions.SetMirror\<close> with \<^verbatim>\<open>WithFallbackValue\<close> (not
  among the sources). Section 4.4: the source's readiness condition is copied verbatim
  when present, else the fallback (status, reason, severity, message) is synthesized; the
  result is stored under the target type.
\<close>

definition SetMirror ::
    "cluster \<Rightarrow> conditionType \<Rightarrow> condition list \<Rightarrow> bool \<Rightarrow> string \<Rightarrow> conditionSeverity
     \<Rightarrow> string \<Rightarrow> cluster" where
  "SetMirror c target from fallbackTo reason severity message =
     (let mirrored =
        (case getCondition from ReadyCondition of
           Some cond \<Rightarrow> cond\<lparr>CondType := target\<rparr>
         | None \<Rightarrow>
             (if fallbackTo then TrueCondition target
              else FalseCondition target reason severity message))
      in c\<lparr>Conditions := setCondition (Conditions c) mirrored\<rparr>)"

text \<open>
  Modelled from the spec: \<^verbatim>\<open>util.LowestNonZeroResult\<close> is not among the sources.
  Section 4.3: the merged result is the earliest (lowest non-zero) of the individual
  requeue-after hints, never the latest.
\<close>

definition LowestNonZeroResult :: "result \<Rightarrow> result \<Rightarrow> result" where
  "LowestNonZeroResult i j =
     (if RequeueAfter i = 0 then j
      else if RequeueAfter j = 0 then i
      else if RequeueAfter i < RequeueAfter j then i
      else j)"

text \<open>
  Modelled from the spec: \<^verbatim>\<open>util.ObjectKey\<close> is not among the sources; section 4.5
  has the request name the owning Cluster, by namespace and name.
\<close>

definition ObjectKey :: "cluster \<Rightarrow> request" where
  "ObjectKey c = \<lparr>ReqNamespace = Namespace (ObjectMeta c), ReqName = Name (ObjectMeta c)\<rparr>"

section \<open>The descendants of a Cluster\<close>

record clusterDescendants =
  machineDeployments :: "machineDeployment list"
  machineSets :: "machineSet list"
  controlPlaneMachines :: "machine list"
  workerMachines :: "machine list"
  machinePools :: "machinePool list"

text \<open>\<^verbatim>\<open>clusterDescendants.length\<close>, as the source sums it.\<close>

definition length_cd :: "clusterDescendants \<Rightarrow> nat" where
  "length_cd c =
     length (machineDeployments c) + length (machineSets c) +
     length (controlPlaneMachines c) + length (workerMachines c)"

text \<open>
  The MachinePool query of \<^verbatim>\<open>listDescendants\<close>, made only under the feature gate.
\<close>

definition listMachinePoolsGated ::
    "env \<Rightarrow> string \<Rightarrow> string \<Rightarrow> call list \<Rightarrow> (error + machinePool list) \<times> call list" where
  "listMachinePoolsGated e ns nm h =
     (if machinePoolEnabled e then
        (case listMachinePools e h ns nm of
           Inl err \<Rightarrow>
             (Inl (Wrapf ''failed to list MachinePools for the cluster %s/%s'' err),
              h @ [ListMachinePoolsCall ns nm])
         | Inr mps \<Rightarrow> (Inr mps, h @ [ListMachinePoolsCall ns nm]))
      else (Inr [], h))"

text \<open>
  \<^verbatim>\<open>listDescendants\<close>. The source returns the partly filled struct beside an error;
  its only caller drops it, so the model returns the error alone.
\<close>

definition listDescendants ::
    "env \<Rightarrow> cluster \<Rightarrow> call list \<Rightarrow> (error + clusterDescendants) \<times> call list" where
  "listDescendants e c h =
     (let ns = Namespace (ObjectMeta c); nm = Name (ObjectMeta c);
          h1 = h @ [ListMachineDeploymentsCall ns nm]
      in case listMachineDeployments e h ns nm of
           Inl err \<Rightarrow> (Inl (Wrapf ''failed to list MachineDeployments for cluster %s/%s'' err), h1)
         | Inr mds \<Rightarrow>
             (let h2 = h1 @ [ListMachineSetsCall ns nm]
              in case listMachineSets e h1 ns nm of
                   Inl err \<Rightarrow> (Inl (Wrapf ''failed to list MachineSets for cluster %s/%s'' err), h2)
                 | Inr mss \<Rightarrow>
                     (case listMachinePoolsGated e ns nm h2 of
                        (Inl err, h3) \<Rightarrow> (Inl err, h3)
                      | (Inr mps, h3) \<Rightarrow>
                          (let h4 = h3 @ [ListMachinesCall ns nm]
                           in case listMachines e h3 ns nm of
                                Inl err \<Rightarrow>
                                  (Inl (Wrapf ''failed to list Machines for cluster %s/%s'' err), h4)
                              | Inr machines \<Rightarrow>
                                  (case splitMachineList e machines of
                                     (controlPlanes, workers) \<Rightarrow>
                                       (Inr \<lparr>machineDeployments = mds, machineSets = mss,
                                             controlPlaneMachines =
                                               (if ControlPlaneRef c = None then controlPlanes
                                                else []),
                                             workerMachines = workers,
                                             machinePools = mps\<rparr>, h4))))))"

text \<open>
  \<^verbatim>\<open>meta.EachListItem\<close> with the closure \<^verbatim>\<open>eachFunc\<close> of
  \<^verbatim>\<open>filterOwnedDescendants\<close>: an owned item is appended to \<^verbatim>\<open>ownedDescendants\<close>.
\<close>

fun eachListItem ::
    "env \<Rightarrow> cluster \<Rightarrow> runtimeObject list \<Rightarrow> runtimeObject list \<Rightarrow> runtimeObject list" where
  "eachListItem e c [] ownedDescendants = ownedDescendants"
| "eachListItem e c (x # xs) ownedDescendants =
     eachListItem e c xs
       (if IsOwnedByObject e (Accessor x) c then ownedDescendants @ [x] else ownedDescendants)"

text \<open>
  \<^verbatim>\<open>filterOwnedDescendants\<close>. \<^verbatim>\<open>eachFunc\<close> returns nil on every item, so the error
  return of the source is never taken and the model returns the list.
\<close>

definition filterOwnedDescendants ::
    "env \<Rightarrow> clusterDescendants \<Rightarrow> cluster \<Rightarrow> runtimeObject list" where
  "filterOwnedDescendants e c cluster =
     (let lists =
            [map MachineDeploymentObj (machineDeployments c),
             map MachineSetObj (machineSets c),
             map MachineObj (workerMachines c),
             map MachineObj (controlPlaneMachines c)];
          lists1 =
            (if machinePoolEnabled e then [map MachinePoolObj (machinePools c)] @ lists
             else lists)
      in fold (\<lambda>list ownedDescendants. eachListItem e cluster list ownedDescendants) lists1 [])"

section \<open>reconcileDelete\<close>

text \<open>
  The loop over \<^verbatim>\<open>children\<close>: a child with a deletion timestamp is skipped, a failed
  delete is collected and the loop goes on.
\<close>

fun deleteChildren ::
    "env \<Rightarrow> runtimeObject list \<Rightarrow> error list \<Rightarrow> call list \<Rightarrow> error list \<times> call list" where
  "deleteChildren e [] errs h = (errs, h)"
| "deleteChildren e (child # rest) errs h =
     (if \<not> IsZero (DeletionTimestamp (Accessor child)) then deleteChildren e rest errs h
      else
        (case clientDelete e h child of
           Some err \<Rightarrow>
             deleteChildren e rest
               (errs @ [Wrapf ''error deleting cluster %s/%s: failed to delete %s %s'' err])
               (h @ [DeleteCall child])
         | None \<Rightarrow> deleteChildren e rest errs (h @ [DeleteCall child])))"

text \<open>
  The first part of \<^verbatim>\<open>reconcileDelete\<close>, up to the test of \<^verbatim>\<open>len(errs)\<close>: \<open>Inl\<close> is an
  early return, \<open>Inr\<close> carries the descendants and the calls made so far.
\<close>

definition deleteOwnedDescendants ::
    "env \<Rightarrow> cluster \<Rightarrow> call list \<Rightarrow> phaseOutcome + clusterDescendants \<times> call list" where
  "deleteOwnedDescendants e c h =
     (case listDescendants e c h of
        (Inl err, h1) \<Rightarrow> Inl ((emptyResult, Some err), c, h1)
      | (Inr descendants, h1) \<Rightarrow>
          (let children = filterOwnedDescendants e descendants c
           in if length children > 0 then
                (case deleteChildren e children [] h1 of
                   (errs, h2) \<Rightarrow>
                     if length errs > 0
                     then Inl ((emptyResult, NewAggregate (map Some errs)), c, h2)
                     else Inr (descendants, h2))
              else Inr (descendants, h1)))"

text \<open>The block on \<^verbatim>\<open>cluster.Spec.ControlPlaneRef\<close>; \<open>Inr\<close> falls through.\<close>

definition deleteControlPlaneRef ::
    "env \<Rightarrow> cluster \<Rightarrow> call list \<Rightarrow> phaseOutcome + cluster \<times> call list" where
  "deleteControlPlaneRef e c h =
     (case ControlPlaneRef c of
        None \<Rightarrow> Inr (c, h)
      | Some ref \<Rightarrow>
          (let h1 = h @ [ExternalGetCall ref (Namespace (ObjectMeta c))]
           in case externalGet e h ref (Namespace (ObjectMeta c)) of
                Inl err \<Rightarrow>
                  (if IsNotFound (Cause err) then
                     Inr (MarkFalse c ControlPlaneReadyCondition DeletedReason
                            ConditionSeverityInfo [], h1)
                   else
                     Inl ((emptyResult,
                           Some (Wrapf ''failed to get %s %q for Cluster %s/%s'' err)), c, h1))
              | Inr obj \<Rightarrow>
                  (let c1 = SetMirror c ControlPlaneReadyCondition (UConditions obj)
                              False DeletingReason ConditionSeverityInfo [];
                       h2 = h1 @ [DeleteCall (UnstructuredObj obj)]
                   in case clientDelete e h1 (UnstructuredObj obj) of
                        Some err \<Rightarrow>
                          Inl ((emptyResult,
                                Some (Wrapf
                                  ''failed to delete %v %q for Cluster %q in namespace %q'' err)),
                               c1, h2)
                      | None \<Rightarrow> Inl ((emptyResult, None), c1, h2))))"

text \<open>The block on \<^verbatim>\<open>cluster.Spec.InfrastructureRef\<close>.\<close>

definition deleteInfrastructureRef ::
    "env \<Rightarrow> cluster \<Rightarrow> call list \<Rightarrow> phaseOutcome + cluster \<times> call list" where
  "deleteInfrastructureRef e c h =
     (case InfrastructureRef c of
        None \<Rightarrow> Inr (c, h)
      | Some ref \<Rightarrow>
          (let h1 = h @ [ExternalGetCall ref (Namespace (ObjectMeta c))]
           in case externalGet e h ref (Namespace (ObjectMeta c)) of
                Inl err \<Rightarrow>
                  (if IsNotFound (Cause err) then
                     Inr (MarkFalse c InfrastructureReadyCondition DeletedReason
                            ConditionSeverityInfo [], h1)
                   else
                     Inl ((emptyResult,
                           Some (Wrapf ''failed to get %s %q for Cluster %s/%s'' err)), c, h1))
              | Inr obj \<Rightarrow>
                  (let c1 = SetMirror c InfrastructureReadyCondition (UConditions obj)
                              False DeletingReason ConditionSeverityInfo [];
                       h2 = h1 @ [DeleteCall (UnstructuredObj obj)]
                   in case clientDelete e h1 (UnstructuredObj obj) of
                        Some err \<Rightarrow>
                          Inl ((emptyResult,
                                Some (Wrapf
                                  ''failed to delete %v %q for Cluster %q in namespace %q'' err)),
                               c1, h2)
                      | None \<Rightarrow> Inl ((emptyResult, None), c1, h2))))"

definition reconcileDelete :: "env \<Rightarrow> cluster \<Rightarrow> call list \<Rightarrow> phaseOutcome" where
  "reconcileDelete e c h =
     (case deleteOwnedDescendants e c h of
        Inl out \<Rightarrow> out
      | Inr (descendants, h1) \<Rightarrow>
          (if length_cd descendants > 0 then
             ((\<lparr>Requeue = False, RequeueAfter = deleteRequeueAfter\<rparr>, None), c, h1)
           else
             (case deleteControlPlaneRef e c h1 of
                Inl out \<Rightarrow> out
              | Inr (c1, h2) \<Rightarrow>
                  (case deleteInfrastructureRef e c1 h2 of
                     Inl out \<Rightarrow> out
                   | Inr (c2, h3) \<Rightarrow>
                       ((emptyResult, None), RemoveFinalizer c2 ClusterFinalizer, h3)))))"

section \<open>reconcile and its phases\<close>

text \<open>
  \<^verbatim>\<open>reconcileControlPlaneInitialized\<close>: the loop over the active machines first.
\<close>

fun markInitialized :: "env \<Rightarrow> cluster \<Rightarrow> machine list \<Rightarrow> cluster" where
  "markInitialized e c [] = c"
| "markInitialized e c (m # ms) =
     (if IsControlPlaneMachine e m \<and> NodeRef m \<noteq> None
      then c\<lparr>ControlPlaneInitialized := True\<rparr>
      else markInitialized e c ms)"

definition reconcileControlPlaneInitialized :: "env \<Rightarrow> cluster \<Rightarrow> call list \<Rightarrow> phaseOutcome" where
  "reconcileControlPlaneInitialized e c h =
     (if ControlPlaneRef c \<noteq> None then ((emptyResult, None), c, h)
      else if ControlPlaneInitialized c then ((emptyResult, None), c, h)
      else
        (let ns = Namespace (ObjectMeta c); nm = Name (ObjectMeta c);
             h1 = h @ [GetActiveMachinesCall ns nm]
         in case getActiveMachinesInCluster e h ns nm of
              Inl err \<Rightarrow> ((emptyResult, Some err), c, h1)
            | Inr machines \<Rightarrow> ((emptyResult, None), markInitialized e c machines, h1)))"

text \<open>
  The loop of \<^verbatim>\<open>reconcile\<close> over \<^verbatim>\<open>phases\<close>, with \<^verbatim>\<open>res\<close> and \<^verbatim>\<open>errs\<close>.
\<close>

fun reconcilePhases ::
    "(cluster \<Rightarrow> call list \<Rightarrow> phaseOutcome) list \<Rightarrow> result \<Rightarrow> error list \<Rightarrow> cluster \<Rightarrow> call list
     \<Rightarrow> (result \<times> error list) \<times> cluster \<times> call list" where
  "reconcilePhases [] res errs c h = ((res, errs), c, h)"
| "reconcilePhases (phase # phases) res errs c h =
     (case phase c h of
        ((phaseResult, err), c1, h1) \<Rightarrow>
          (let errs1 = (case err of Some x \<Rightarrow> errs @ [x] | None \<Rightarrow> errs)
           in if length errs1 > 0 then reconcilePhases phases res errs1 c1 h1
              else reconcilePhases phases (LowestNonZeroResult res phaseResult) errs1 c1 h1))"

definition phasesOf :: "env \<Rightarrow> (cluster \<Rightarrow> call list \<Rightarrow> phaseOutcome) list" where
  "phasesOf e =
     [reconcileInfrastructure e, reconcileControlPlane e, reconcileKubeconfig e,
      reconcileControlPlaneInitialized e]"

definition reconcile :: "env \<Rightarrow> cluster \<Rightarrow> call list \<Rightarrow> phaseOutcome" where
  "reconcile e c h =
     (case reconcilePhases (phasesOf e) emptyResult [] c h of
        ((res, errs), c1, h1) \<Rightarrow> ((res, NewAggregate (map Some errs)), c1, h1))"

section \<open>Reconcile\<close>

definition patchCluster ::
    "env \<Rightarrow> cluster \<Rightarrow> patchOption list \<Rightarrow> call list \<Rightarrow> error option \<times> cluster \<times> call list" where
  "patchCluster e c options h =
     (let c1 = SetSummary e c [ControlPlaneReadyCondition, InfrastructureReadyCondition];
          options1 = options @
            [WithOwnedConditions
               [ReadyCondition, ControlPlaneReadyCondition, InfrastructureReadyCondition]]
      in (helperPatch e h c1 options1, c1, h @ [PatchCall c1 options1]))"

text \<open>The deferred function of \<^verbatim>\<open>Reconcile\<close>, run on what the body returned.\<close>

definition deferredPatch :: "env \<Rightarrow> phaseOutcome \<Rightarrow> phaseOutcome" where
  "deferredPatch e out =
     (case out of
        ((res, reterr), c, h) \<Rightarrow>
          (let c1 = reconcilePhase e c;
               patchOpts = (if reterr = None then [WithStatusObservedGeneration] else [])
           in case patchCluster e c1 patchOpts h of
                (Some err, c2, h1) \<Rightarrow> ((res, NewAggregate [reterr, Some err]), c2, h1)
              | (None, c2, h1) \<Rightarrow> ((res, reterr), c2, h1)))"

text \<open>The body of \<^verbatim>\<open>Reconcile\<close> after the deferred function is registered.\<close>

definition reconcileBody :: "env \<Rightarrow> cluster \<Rightarrow> call list \<Rightarrow> phaseOutcome" where
  "reconcileBody e c h =
     (if \<not> ContainsFinalizer c ClusterFinalizer
      then ((emptyResult, None), AddFinalizer c ClusterFinalizer, h)
      else if \<not> IsZero (DeletionTimestamp (ObjectMeta c)) then reconcileDelete e c h
      else reconcile e c h)"

definition Reconcile :: "env \<Rightarrow> request \<Rightarrow> call list \<Rightarrow> (result \<times> error option) \<times> call list" where
  "Reconcile e req h =
     (let h1 = h @ [GetClusterCall (ReqNamespace req) (ReqName req)]
      in case clientGetCluster e h (ReqNamespace req) (ReqName req) of
           Inl err \<Rightarrow>
             (if IsNotFound err then ((emptyResult, None), h1)
              else ((emptyResult, Some err), h1))
         | Inr c \<Rightarrow>
             (if IsPaused e c then ((emptyResult, None), h1)
              else
                (case NewHelper e c of
                   Some err \<Rightarrow> ((emptyResult, Some err), h1)
                 | None \<Rightarrow>
                     (case deferredPatch e (reconcileBody e c h1) of
                        (out, c1, h2) \<Rightarrow> (out, h2)))))"

section \<open>controlPlaneMachineToCluster\<close>

definition controlPlaneMachineToCluster ::
    "env \<Rightarrow> runtimeObject \<Rightarrow> call list \<Rightarrow> request list \<times> call list" where
  "controlPlaneMachineToCluster e obj h =
     (case obj of
        MachineObj m \<Rightarrow>
          (if \<not> IsControlPlaneMachine e m then ([], h)
           else if NodeRef m = None then ([], h)
           else
             (let h1 = h @ [GetClusterByNameCall (Namespace (MachineMeta m)) (ClusterName m)]
              in case GetClusterByName e h (Namespace (MachineMeta m)) (ClusterName m) of
                   Inl err \<Rightarrow> ([], h1)
                 | Inr c \<Rightarrow>
                     (if ControlPlaneInitialized c then ([], h1) else ([ObjectKey c], h1))))
      | _ \<Rightarrow> ([], h))"

section \<open>The specification's reading of the phase pipeline\<close>

text \<open>
  Section 4.3 of the specification: every step of the pipeline is invoked exactly once
  per pass, in order, whatever the earlier steps returned. \<open>runEveryPhaseOnce\<close> is
  that reading, written down to compare the loop of \<^verbatim>\<open>reconcile\<close> with: each step runs
  on the Cluster and the store as the step before left them, and its result and error are
  listed.
\<close>

fun runEveryPhaseOnce ::
    "(cluster \<Rightarrow> call list \<Rightarrow> phaseOutcome) list \<Rightarrow> cluster \<Rightarrow> call list
     \<Rightarrow> (result \<times> error option) list \<times> cluster \<times> call list" where
  "runEveryPhaseOnce [] c h = ([], c, h)"
| "runEveryPhaseOnce (phase # phases) c h =
     (case phase c h of
        (out, c1, h1) \<Rightarrow>
          (case runEveryPhaseOnce phases c1 h1 of
             (outs, c2, h2) \<Rightarrow> (out # outs, c2, h2)))"

text \<open>The results of the steps that ran before the first step that returned an error.\<close>

definition beforeFirstError :: "(result \<times> error option) list \<Rightarrow> result list" where
  "beforeFirstError outs = map fst (takeWhile (\<lambda>out. snd out = None) outs)"

text \<open>The lowest non-zero duration of a list; zero when there is none.\<close>

definition lowestNonZero :: "duration list \<Rightarrow> duration" where
  "lowestNonZero ds =
     (if filter (\<lambda>d. d \<noteq> 0) ds = [] then 0 else Min (set (filter (\<lambda>d. d \<noteq> 0) ds)))"

section \<open>Notions the claims about deletion are stated with\<close>

text \<open>A recorded call that asks the store to delete a descendant of a Cluster.\<close>

fun isDescendantDelete :: "call \<Rightarrow> bool" where
  "isDescendantDelete (DeleteCall (MachineDeploymentObj x)) = True"
| "isDescendantDelete (DeleteCall (MachineSetObj x)) = True"
| "isDescendantDelete (DeleteCall (MachineObj x)) = True"
| "isDescendantDelete (DeleteCall (MachinePoolObj x)) = True"
| "isDescendantDelete x = False"

text \<open>
  An external reference is absent when it is nil or when resolving it, after the calls
  \<open>h\<close>, gives an error whose cause is NotFound.
\<close>

definition refAbsent :: "env \<Rightarrow> call list \<Rightarrow> objectReference option \<Rightarrow> string \<Rightarrow> bool" where
  "refAbsent e h ref ns =
     (case ref of
        None \<Rightarrow> True
      | Some r \<Rightarrow> (case externalGet e h r ns of Inl err \<Rightarrow> IsNotFound (Cause err) | Inr obj \<Rightarrow> False))"

text \<open>The call that resolving a reference makes: none for a nil reference.\<close>

definition refCalls :: "objectReference option \<Rightarrow> string \<Rightarrow> call list" where
  "refCalls ref ns = (case ref of None \<Rightarrow> [] | Some r \<Rightarrow> [ExternalGetCall r ns])"

text \<open>
  The gate of the finalizer, in the specification's terms: listing and deleting the owned
  descendants succeeded, no MachineDeployment, no MachineSet, no control-plane Machine and
  no worker Machine is among the listed descendants, and both external references are
  absent, each at the moment \<^verbatim>\<open>reconcileDelete\<close> resolves it. It says nothing of
  MachinePools.
\<close>

definition deletionComplete :: "env \<Rightarrow> cluster \<Rightarrow> call list \<Rightarrow> bool" where
  "deletionComplete e c h =
     (case deleteOwnedDescendants e c h of
        Inl out \<Rightarrow> False
      | Inr (d, h1) \<Rightarrow>
          machineDeployments d = [] \<and> machineSets d = []
          \<and> controlPlaneMachines d = [] \<and> workerMachines d = []
          \<and> refAbsent e h1 (ControlPlaneRef c) (Namespace (ObjectMeta c))
          \<and> refAbsent e (h1 @ refCalls (ControlPlaneRef c) (Namespace (ObjectMeta c)))
                (InfrastructureRef c) (Namespace (ObjectMeta c)))"

text \<open>The Cluster of the latest patch among the recorded calls, if there is one.\<close>

fun lastPatched :: "call list \<Rightarrow> cluster option" where
  "lastPatched [] = None"
| "lastPatched (x # xs) =
     (case lastPatched xs of
        Some c \<Rightarrow> Some c
      | None \<Rightarrow> (case x of PatchCall c opts \<Rightarrow> Some c | _ \<Rightarrow> None))"

section \<open>Concrete scenarios\<close>

text \<open>
  Small worlds on which the theorems below are instantiated. In them a Machine is a
  control-plane Machine when it carries the control-plane label, and an object is owned by
  a Cluster when one of its owner references has kind Cluster and the Cluster's name.
\<close>

definition metaOf :: "string \<Rightarrow> objectMeta" where
  "metaOf nm =
     \<lparr>Name = nm, Namespace = ''ns'', Labels = [], OwnerReferences = [],
      DeletionTimestamp = None, Finalizers = []\<rparr>"

definition ownerRef :: objectReference where
  "ownerRef = \<lparr>APIVersion = ''cluster.x-k8s.io/v1alpha4'', Kind = ''Cluster'', RefName = ''c''\<rparr>"

definition ownedMetaOf :: "string \<Rightarrow> objectMeta" where
  "ownedMetaOf nm = (metaOf nm)\<lparr>OwnerReferences := [ownerRef]\<rparr>"

definition nodeRefOf :: "string \<Rightarrow> objectReference" where
  "nodeRefOf nm = \<lparr>APIVersion = ''v1'', Kind = ''Node'', RefName = nm\<rparr>"

definition workerOf :: "string \<Rightarrow> machine" where
  "workerOf nm = \<lparr>MachineMeta = ownedMetaOf nm, ClusterName = ''c'', NodeRef = None\<rparr>"

definition controlPlaneOf :: "string \<Rightarrow> machine" where
  "controlPlaneOf nm =
     \<lparr>MachineMeta = (ownedMetaOf nm)\<lparr>Labels := [(''cluster.x-k8s.io/control-plane'', [])]\<rparr>,
      ClusterName = ''c'', NodeRef = Some (nodeRefOf nm)\<rparr>"

definition clusterOf :: "string list \<Rightarrow> time option \<Rightarrow> cluster" where
  "clusterOf fs deleted =
     \<lparr>ObjectMeta = (metaOf ''c'')\<lparr>Finalizers := fs, DeletionTimestamp := deleted\<rparr>,
      ControlPlaneRef = None, InfrastructureRef = None, ControlPlaneInitialized = False,
      Conditions = [], Phase = []\<rparr>"

definition quietEnv :: env where
  "quietEnv =
     \<lparr>clientGetCluster = (\<lambda>h ns nm. Inl (NotFound ''cluster'')),
      listMachineDeployments = (\<lambda>h ns nm. Inr []),
      listMachineSets = (\<lambda>h ns nm. Inr []),
      listMachinePools = (\<lambda>h ns nm. Inr []),
      listMachines = (\<lambda>h ns nm. Inr []),
      clientDelete = (\<lambda>h obj. None),
      externalGet = (\<lambda>h ref ns. Inl (Wrapf ''failed to retrieve'' (NotFound ''external''))),
      getActiveMachinesInCluster = (\<lambda>h ns nm. Inr []),
      GetClusterByName = (\<lambda>h ns nm. Inl (NotFound ''cluster'')),
      helperPatch = (\<lambda>h c opts. None),
      NewHelper = (\<lambda>c. None),
      machinePoolEnabled = False,
      IsControlPlaneMachine =
        (\<lambda>m. map_of (Labels (MachineMeta m)) ''cluster.x-k8s.io/control-plane'' \<noteq> None),
      IsOwnedByObject =
        (\<lambda>obj c. list_ex (\<lambda>r. Kind r = ''Cluster'' \<and> RefName r = Name (ObjectMeta c))
                   (OwnerReferences obj)),
      IsPaused = (\<lambda>c. False),
      SetSummary = (\<lambda>c ts. c),
      reconcilePhase = (\<lambda>c. c),
      reconcileInfrastructure = (\<lambda>c h. ((emptyResult, None), c, h)),
      reconcileControlPlane = (\<lambda>c h. ((emptyResult, None), c, h)),
      reconcileKubeconfig = (\<lambda>c h. ((emptyResult, None), c, h))\<rparr>"

text \<open>The active machines of the Cluster are a worker and a control-plane Machine with a node.\<close>

definition machinesEnv :: env where
  "machinesEnv =
     quietEnv\<lparr>getActiveMachinesInCluster :=
                (\<lambda>h ns nm. Inr [workerOf ''w'', controlPlaneOf ''a''])\<rparr>"

text \<open>
  Cluster \<^verbatim>\<open>c\<close> exists and is not initialized, Cluster \<^verbatim>\<open>d\<close> exists and is
  initialized, no other Cluster exists.
\<close>

definition lookupEnv :: env where
  "lookupEnv =
     quietEnv\<lparr>GetClusterByName :=
                (\<lambda>h ns nm.
                   if nm = ''c'' then Inr (clusterOf [ClusterFinalizer] None)
                   else if nm = ''d''
                     then Inr ((clusterOf [ClusterFinalizer] None)\<lparr>ControlPlaneInitialized := True\<rparr>)
                   else Inl (NotFound ''cluster''))\<rparr>"

text \<open>
  Infrastructure asks for a recheck after 30, the control plane after 10, the kubeconfig
  step fails (and asks for 1); the active machines are those of \<open>machinesEnv\<close>.
\<close>

definition phasesEnv :: env where
  "phasesEnv =
     machinesEnv
       \<lparr>reconcileInfrastructure :=
          (\<lambda>c h. ((\<lparr>Requeue = False, RequeueAfter = 30\<rparr>, None), c, h)),
        reconcileControlPlane :=
          (\<lambda>c h. ((\<lparr>Requeue = False, RequeueAfter = 10\<rparr>, None), c, h)),
        reconcileKubeconfig :=
          (\<lambda>c h. ((\<lparr>Requeue = False, RequeueAfter = 1\<rparr>, Some (StatusError ''kubeconfig'')),
                   c, h))\<rparr>"

text \<open>
  The MachinePool feature is on and the Cluster has one MachinePool, which it owns, and no
  other descendant.
\<close>

definition poolEnv :: env where
  "poolEnv =
     quietEnv\<lparr>machinePoolEnabled := True,
              listMachinePools := (\<lambda>h ns nm. Inr [ownedMetaOf ''pool''])\<rparr>"

text \<open>One descendant of each kind, all owned by the Cluster, with the feature on.\<close>

definition fleetEnv :: env where
  "fleetEnv =
     quietEnv\<lparr>machinePoolEnabled := True,
              listMachinePools := (\<lambda>h ns nm. Inr [ownedMetaOf ''pool'']),
              listMachineDeployments := (\<lambda>h ns nm. Inr [ownedMetaOf ''md'']),
              listMachineSets := (\<lambda>h ns nm. Inr [ownedMetaOf ''ms'']),
              listMachines := (\<lambda>h ns nm. Inr [controlPlaneOf ''cp'', workerOf ''w''])\<rparr>"

text \<open>
  The provider object \<^verbatim>\<open>cp\<close> exists and has no conditions, resolving \<^verbatim>\<open>broken\<close>
  fails, and any other reference resolves to NotFound.
\<close>

definition refOf :: "string \<Rightarrow> objectReference" where
  "refOf nm = \<lparr>APIVersion = ''provider/v1'', Kind = ''Provider'', RefName = nm\<rparr>"

definition providerObj :: unstructured where
  "providerObj =
     \<lparr>UAPIVersion = ''provider/v1'', UKind = ''Provider'', UName = ''cp'', UNamespace = ''ns'',
      UConditions = []\<rparr>"

definition providerEnv :: env where
  "providerEnv =
     quietEnv\<lparr>externalGet :=
                (\<lambda>h ref ns.
                   if RefName ref = ''cp'' then Inr providerObj
                   else if RefName ref = ''broken''
                     then Inl (Wrapf ''failed to retrieve'' (StatusError ''timeout''))
                   else Inl (Wrapf ''failed to retrieve'' (NotFound ''external'')))\<rparr>"

text \<open>
  Deleting Clusters for \<open>providerEnv\<close>: one whose control-plane provider object still
  exists, and one whose control-plane provider object is gone and whose infrastructure
  reference cannot be resolved.
\<close>

definition clusterWithProvider :: cluster where
  "clusterWithProvider =
     (clusterOf [ClusterFinalizer] (Some 5))\<lparr>ControlPlaneRef := Some (refOf ''cp'')\<rparr>"

definition clusterWithBrokenInfra :: cluster where
  "clusterWithBrokenInfra =
     (clusterOf [ClusterFinalizer] (Some 5))
       \<lparr>ControlPlaneRef := Some (refOf ''gone''), InfrastructureRef := Some (refOf ''broken'')\<rparr>"

definition noDescendants :: clusterDescendants where
  "noDescendants =
     \<lparr>machineDeployments = [], machineSets = [], controlPlaneMachines = [],
      workerMachines = [], machinePools = []\<rparr>"

definition listCalls :: "call list" where
  "listCalls =
     [ListMachineDeploymentsCall ''ns'' ''c'', ListMachineSetsCall ''ns'' ''c'',
      ListMachinesCall ''ns'' ''c'']"

text \<open>
  Worlds for \<^verbatim>\<open>Reconcile\<close>. In \<open>foregroundEnv\<close> the Cluster is being deleted, is held by
  another finalizer and does not carry the Cluster finalizer. In \<open>failingEnv\<close> the Cluster
  is live and carries the finalizer, and the phases are those of \<open>phasesEnv\<close>, one of
  which fails.
\<close>

definition foregroundEnv :: env where
  "foregroundEnv =
     quietEnv\<lparr>clientGetCluster :=
                (\<lambda>h ns nm. Inr (clusterOf [''foregroundDeletion''] (Some 5)))\<rparr>"

definition failingEnv :: env where
  "failingEnv =
     phasesEnv\<lparr>clientGetCluster := (\<lambda>h ns nm. Inr (clusterOf [ClusterFinalizer] None))\<rparr>"

definition deletingEnv :: env where
  "deletingEnv =
     providerEnv\<lparr>clientGetCluster := (\<lambda>h ns nm. Inr clusterWithProvider)\<rparr>"

definition requestOf :: request where
  "requestOf = \<lparr>ReqNamespace = ''ns'', ReqName = ''c''\<rparr>"

text \<open>
  A store that keeps what is patched: fetching the Cluster gives the Cluster of the latest
  patch, and before any patch a Cluster that is being deleted, is held by another finalizer
  besides the Cluster finalizer, and has no descendant and no external reference.
  \<open>firstPass\<close> are the calls of the first pass of \<^verbatim>\<open>Reconcile\<close> on it.
\<close>

definition storeEnv :: env where
  "storeEnv =
     quietEnv\<lparr>clientGetCluster :=
                (\<lambda>h ns nm.
                   case lastPatched h of
                     Some c \<Rightarrow> Inr c
                   | None \<Rightarrow> Inr (clusterOf [''foregroundDeletion'', ClusterFinalizer] (Some 5)))\<rparr>"

definition firstPass :: "call list" where
  "firstPass =
     [GetClusterCall ''ns'' ''c'', ListMachineDeploymentsCall ''ns'' ''c'',
      ListMachineSetsCall ''ns'' ''c'', ListMachinesCall ''ns'' ''c'',
      PatchCall (clusterOf [''foregroundDeletion''] (Some 5))
        [WithStatusObservedGeneration,
         WithOwnedConditions
           [ReadyCondition, ControlPlaneReadyCondition, InfrastructureReadyCondition]]]"

section \<open>Properties of splitMachineList\<close>

lemma splitLoop_filter:
  "splitLoop isCP ms cps nodes =
     (cps @ filter isCP ms, nodes @ filter (\<lambda>m. \<not> isCP m) ms)"
  by (induction ms arbitrary: cps nodes) simp_all

lemma splitMachineList_filter:
  "splitMachineList e ms =
     (filter (IsControlPlaneMachine e) ms, filter (\<lambda>m. \<not> IsControlPlaneMachine e m) ms)"
  by (simp add: splitMachineList_def splitLoop_filter)

text \<open>
  Claim C10. \<^verbatim>\<open>splitMachineList\<close> is a partition of its input: the first output is the
  input restricted to the control-plane Machines and the second is the input restricted
  to the others, each in the input's order; every Machine occurs in the two outputs
  together exactly as often as in the input (none dropped, none duplicated), a
  control-plane Machine only in the first and any other only in the second; and the two
  lengths add up to the input's length.
\<close>

theorem splitMachineList_partition:
  assumes "splitMachineList e ms = (controlplanes, nodes)"
  shows "controlplanes = filter (IsControlPlaneMachine e) ms
       \<and> nodes = filter (\<lambda>m. \<not> IsControlPlaneMachine e m) ms
       \<and> mset controlplanes + mset nodes = mset ms
       \<and> length controlplanes + length nodes = length ms
       \<and> (\<forall>m. count (mset controlplanes) m =
               (if IsControlPlaneMachine e m then count (mset ms) m else 0))
       \<and> (\<forall>m. count (mset nodes) m =
               (if IsControlPlaneMachine e m then 0 else count (mset ms) m))
       \<and> set controlplanes \<inter> set nodes = {}"
proof -
  from assms have cps: "controlplanes = filter (IsControlPlaneMachine e) ms"
    and nodes: "nodes = filter (\<lambda>m. \<not> IsControlPlaneMachine e m) ms"
    by (simp_all add: splitMachineList_filter)
  have un: "mset controlplanes + mset nodes = mset ms"
    unfolding cps nodes by (induction ms) simp_all
  have len: "length controlplanes + length nodes = length ms"
    unfolding cps nodes by (rule sum_length_filter_compl)
  have c1: "\<forall>m. count (mset controlplanes) m =
               (if IsControlPlaneMachine e m then count (mset ms) m else 0)"
    unfolding cps by simp
  have c2: "\<forall>m. count (mset nodes) m =
               (if IsControlPlaneMachine e m then 0 else count (mset ms) m)"
    unfolding nodes by simp
  have dj: "set controlplanes \<inter> set nodes = {}"
    unfolding cps nodes by auto
  from cps nodes un len c1 c2 dj show ?thesis by blast
qed

theorem splitMachineList_partition_witness:
  "splitMachineList quietEnv [controlPlaneOf ''a'', workerOf ''b'', controlPlaneOf ''c'']
     = ([controlPlaneOf ''a'', controlPlaneOf ''c''], [workerOf ''b''])
   \<and> [controlPlaneOf ''a'', controlPlaneOf ''c'']
       = filter (IsControlPlaneMachine quietEnv)
           [controlPlaneOf ''a'', workerOf ''b'', controlPlaneOf ''c'']
   \<and> mset [controlPlaneOf ''a'', controlPlaneOf ''c''] + mset [workerOf ''b'']
       = mset [controlPlaneOf ''a'', workerOf ''b'', controlPlaneOf ''c'']
   \<and> length [controlPlaneOf ''a'', controlPlaneOf ''c''] + length [workerOf ''b'']
       = length [controlPlaneOf ''a'', workerOf ''b'', controlPlaneOf ''c'']"
proof -
  have h: "splitMachineList quietEnv
             [controlPlaneOf ''a'', workerOf ''b'', controlPlaneOf ''c'']
           = ([controlPlaneOf ''a'', controlPlaneOf ''c''], [workerOf ''b''])"
    by (simp add: splitMachineList_def quietEnv_def controlPlaneOf_def workerOf_def
        ownedMetaOf_def metaOf_def)
  from splitMachineList_partition [OF h] h show ?thesis by blast
qed

section \<open>Properties of reconcileControlPlaneInitialized\<close>

lemma markInitialized_eq:
  "markInitialized e c ms =
     (if \<exists>m \<in> set ms. IsControlPlaneMachine e m \<and> NodeRef m \<noteq> None
      then c\<lparr>ControlPlaneInitialized := True\<rparr> else c)"
  by (induction ms) auto

text \<open>
  Claim C7. The control-plane-initialized step is a one-way latch. When ControlPlaneRef is
  set, or when the flag is already true, the step returns at once: no call is made, the
  Cluster is unchanged, the result is empty and there is no error. The flag is never set
  back to false and nothing but the flag changes. The flag is true afterwards exactly when
  it was true before, or ControlPlaneRef is nil and some machine among the active machines
  of the Cluster is a control-plane Machine with a node reference.
\<close>

theorem reconcileControlPlaneInitialized_latch:
  assumes "reconcileControlPlaneInitialized e c h = ((res, err), c', h')"
  shows "(ControlPlaneRef c \<noteq> None \<or> ControlPlaneInitialized c
            \<longrightarrow> c' = c \<and> h' = h \<and> res = emptyResult \<and> err = None)
       \<and> (ControlPlaneInitialized c \<longrightarrow> ControlPlaneInitialized c')
       \<and> c' = c\<lparr>ControlPlaneInitialized := ControlPlaneInitialized c'\<rparr>
       \<and> res = emptyResult
       \<and> ControlPlaneInitialized c' =
           (ControlPlaneInitialized c \<or>
            (ControlPlaneRef c = None \<and>
             (case getActiveMachinesInCluster e h (Namespace (ObjectMeta c)) (Name (ObjectMeta c)) of
                Inl x \<Rightarrow> False
              | Inr machines \<Rightarrow>
                  (\<exists>m \<in> set machines. IsControlPlaneMachine e m \<and> NodeRef m \<noteq> None))))"
  using assms
  by (auto simp: reconcileControlPlaneInitialized_def markInitialized_eq Let_def
      split: if_splits sum.splits)

theorem reconcileControlPlaneInitialized_latch_witness:
  "reconcileControlPlaneInitialized machinesEnv (clusterOf [] None) []
     = ((emptyResult, None), (clusterOf [] None)\<lparr>ControlPlaneInitialized := True\<rparr>,
        [GetActiveMachinesCall ''ns'' ''c''])
   \<and> ControlPlaneInitialized ((clusterOf [] None)\<lparr>ControlPlaneInitialized := True\<rparr>)
   \<and> reconcileControlPlaneInitialized machinesEnv
        ((clusterOf [] None)\<lparr>ControlPlaneInitialized := True\<rparr>) []
     = ((emptyResult, None), (clusterOf [] None)\<lparr>ControlPlaneInitialized := True\<rparr>, [])
   \<and> reconcileControlPlaneInitialized machinesEnv
        ((clusterOf [] None)\<lparr>ControlPlaneRef := Some ownerRef\<rparr>) []
     = ((emptyResult, None), (clusterOf [] None)\<lparr>ControlPlaneRef := Some ownerRef\<rparr>, [])"
proof -
  have fresh: "reconcileControlPlaneInitialized machinesEnv (clusterOf [] None) []
     = ((emptyResult, None), (clusterOf [] None)\<lparr>ControlPlaneInitialized := True\<rparr>,
        [GetActiveMachinesCall ''ns'' ''c''])"
    by (simp add: reconcileControlPlaneInitialized_def machinesEnv_def quietEnv_def
        clusterOf_def metaOf_def workerOf_def controlPlaneOf_def ownedMetaOf_def)
  obtain r1 e1 c1 h1 where latched:
    "reconcileControlPlaneInitialized machinesEnv
        ((clusterOf [] None)\<lparr>ControlPlaneInitialized := True\<rparr>) [] = ((r1, e1), c1, h1)"
    by (metis prod.exhaust)
  obtain r2 e2 c2 h2 where provider:
    "reconcileControlPlaneInitialized machinesEnv
        ((clusterOf [] None)\<lparr>ControlPlaneRef := Some ownerRef\<rparr>) [] = ((r2, e2), c2, h2)"
    by (metis prod.exhaust)
  from reconcileControlPlaneInitialized_latch [OF fresh]
    reconcileControlPlaneInitialized_latch [OF latched]
    reconcileControlPlaneInitialized_latch [OF provider] fresh latched provider
  show ?thesis by simp
qed

section \<open>Properties of controlPlaneMachineToCluster\<close>

text \<open>
  Claim C8. On a Machine event the watch mapper returns no request, and looks nothing up,
  when the Machine is not a control-plane Machine or has no node reference. Otherwise it
  looks the owning Cluster up once, by the Machine's namespace and cluster name: a failed
  lookup gives no request (the function has no error result, the failure goes nowhere), a
  Cluster with control-plane-initialized true gives no request, and any other Cluster gives
  exactly one request, which carries that Cluster's namespace and name.
\<close>

theorem controlPlaneMachineToCluster_requests:
  assumes "controlPlaneMachineToCluster e (MachineObj m) h = (reqs, h')"
  shows "(\<not> IsControlPlaneMachine e m \<or> NodeRef m = None \<longrightarrow> reqs = [] \<and> h' = h)
       \<and> (IsControlPlaneMachine e m \<and> NodeRef m \<noteq> None \<longrightarrow>
            h' = h @ [GetClusterByNameCall (Namespace (MachineMeta m)) (ClusterName m)]
          \<and> (case GetClusterByName e h (Namespace (MachineMeta m)) (ClusterName m) of
                Inl err \<Rightarrow> reqs = []
              | Inr c \<Rightarrow>
                  reqs = (if ControlPlaneInitialized c then []
                          else [\<lparr>ReqNamespace = Namespace (ObjectMeta c),
                                 ReqName = Name (ObjectMeta c)\<rparr>])))"
  using assms
  by (auto simp: controlPlaneMachineToCluster_def ObjectKey_def Let_def
      split: if_splits sum.splits)

theorem controlPlaneMachineToCluster_requests_witness:
  "controlPlaneMachineToCluster lookupEnv (MachineObj (controlPlaneOf ''a'')) []
     = ([\<lparr>ReqNamespace = ''ns'', ReqName = ''c''\<rparr>], [GetClusterByNameCall ''ns'' ''c''])
   \<and> controlPlaneMachineToCluster lookupEnv (MachineObj (workerOf ''w'')) [] = ([], [])
   \<and> controlPlaneMachineToCluster lookupEnv
        (MachineObj ((controlPlaneOf ''a'')\<lparr>NodeRef := None\<rparr>)) [] = ([], [])
   \<and> controlPlaneMachineToCluster lookupEnv
        (MachineObj ((controlPlaneOf ''a'')\<lparr>ClusterName := ''d''\<rparr>)) []
     = ([], [GetClusterByNameCall ''ns'' ''d''])
   \<and> controlPlaneMachineToCluster lookupEnv
        (MachineObj ((controlPlaneOf ''a'')\<lparr>ClusterName := ''gone''\<rparr>)) []
     = ([], [GetClusterByNameCall ''ns'' ''gone''])"
proof -
  have isCP: "IsControlPlaneMachine lookupEnv (controlPlaneOf ''a'')"
    "IsControlPlaneMachine lookupEnv ((controlPlaneOf ''a'')\<lparr>NodeRef := None\<rparr>)"
    "IsControlPlaneMachine lookupEnv ((controlPlaneOf ''a'')\<lparr>ClusterName := ''d''\<rparr>)"
    "IsControlPlaneMachine lookupEnv ((controlPlaneOf ''a'')\<lparr>ClusterName := ''gone''\<rparr>)"
    "\<not> IsControlPlaneMachine lookupEnv (workerOf ''w'')"
    by (simp_all add: lookupEnv_def quietEnv_def controlPlaneOf_def workerOf_def
        ownedMetaOf_def metaOf_def)
  have look: "GetClusterByName lookupEnv [] ''ns'' ''c'' = Inr (clusterOf [ClusterFinalizer] None)"
    "GetClusterByName lookupEnv [] ''ns'' ''d''
       = Inr ((clusterOf [ClusterFinalizer] None)\<lparr>ControlPlaneInitialized := True\<rparr>)"
    "GetClusterByName lookupEnv [] ''ns'' ''gone'' = Inl (NotFound ''cluster'')"
    by (simp_all add: lookupEnv_def quietEnv_def)
  have flds: "NodeRef (controlPlaneOf ''a'') \<noteq> None" "ClusterName (controlPlaneOf ''a'') = ''c''"
    "Namespace (MachineMeta (controlPlaneOf ''a'')) = ''ns''"
    "Namespace (ObjectMeta (clusterOf [ClusterFinalizer] None)) = ''ns''"
    "Name (ObjectMeta (clusterOf [ClusterFinalizer] None)) = ''c''"
    "\<not> ControlPlaneInitialized (clusterOf [ClusterFinalizer] None)"
    by (simp_all add: controlPlaneOf_def ownedMetaOf_def metaOf_def clusterOf_def)
  obtain q1 k1 where r1: "controlPlaneMachineToCluster lookupEnv
      (MachineObj (controlPlaneOf ''a'')) [] = (q1, k1)" by (metis prod.exhaust)
  obtain q2 k2 where r2: "controlPlaneMachineToCluster lookupEnv
      (MachineObj (workerOf ''w'')) [] = (q2, k2)" by (metis prod.exhaust)
  obtain q3 k3 where r3: "controlPlaneMachineToCluster lookupEnv
      (MachineObj ((controlPlaneOf ''a'')\<lparr>NodeRef := None\<rparr>)) [] = (q3, k3)"
    by (metis prod.exhaust)
  obtain q4 k4 where r4: "controlPlaneMachineToCluster lookupEnv
      (MachineObj ((controlPlaneOf ''a'')\<lparr>ClusterName := ''d''\<rparr>)) [] = (q4, k4)"
    by (metis prod.exhaust)
  obtain q5 k5 where r5: "controlPlaneMachineToCluster lookupEnv
      (MachineObj ((controlPlaneOf ''a'')\<lparr>ClusterName := ''gone''\<rparr>)) [] = (q5, k5)"
    by (metis prod.exhaust)
  from controlPlaneMachineToCluster_requests [OF r1]
    controlPlaneMachineToCluster_requests [OF r2]
    controlPlaneMachineToCluster_requests [OF r3]
    controlPlaneMachineToCluster_requests [OF r4]
    controlPlaneMachineToCluster_requests [OF r5]
    r1 r2 r3 r4 r5 isCP look flds
  show ?thesis by simp
qed

section \<open>Properties of reconcile\<close>

lemma lowestNonZero_snoc:
  "lowestNonZero (ds @ [d]) =
     (if lowestNonZero ds = 0 then d
      else if d = 0 then lowestNonZero ds
      else min (lowestNonZero ds) d)"
proof (cases "filter (\<lambda>d. d \<noteq> 0) ds = []")
  case True
  then show ?thesis by (simp add: lowestNonZero_def)
next
  case False
  then have ne: "set (filter (\<lambda>d. d \<noteq> 0) ds) \<noteq> {}" by (simp only: set_empty not_False_eq_True)
  have "Min (set (filter (\<lambda>d. d \<noteq> 0) ds)) \<in> set (filter (\<lambda>d. d \<noteq> 0) ds)"
    by (rule Min_in [OF finite_set ne])
  then have nz: "Min (set (filter (\<lambda>d. d \<noteq> 0) ds)) \<noteq> 0" by simp
  show ?thesis
  proof (cases "d = 0")
    case True
    with False show ?thesis by (simp add: lowestNonZero_def)
  next
    case dnz: False
    have "Min (insert d (set (filter (\<lambda>d. d \<noteq> 0) ds)))
            = min d (Min (set (filter (\<lambda>d. d \<noteq> 0) ds)))"
      by (rule Min_insert [OF finite_set ne])
    with False dnz nz show ?thesis by (simp add: lowestNonZero_def min.commute)
  qed
qed

lemma RequeueAfter_LowestNonZeroResult:
  "RequeueAfter (LowestNonZeroResult i j) =
     (if RequeueAfter i = 0 then RequeueAfter j
      else if RequeueAfter j = 0 then RequeueAfter i
      else min (RequeueAfter i) (RequeueAfter j))"
  by (simp add: LowestNonZeroResult_def min_def)

lemma RequeueAfter_foldl:
  "RequeueAfter r = lowestNonZero ds \<Longrightarrow>
   RequeueAfter (foldl LowestNonZeroResult r rs) = lowestNonZero (ds @ map RequeueAfter rs)"
proof (induction rs arbitrary: r ds)
  case Nil
  then show ?case by simp
next
  case (Cons x xs)
  have "RequeueAfter (LowestNonZeroResult r x) = lowestNonZero (ds @ [RequeueAfter x])"
    using Cons.prems by (simp add: RequeueAfter_LowestNonZeroResult lowestNonZero_snoc)
  from Cons.IH [OF this] show ?case by simp
qed

lemma foldl_LowestNonZeroResult_mem:
  "foldl LowestNonZeroResult r rs \<in> set (r # rs)"
proof (induction rs arbitrary: r)
  case Nil
  then show ?case by simp
next
  case (Cons x xs)
  have "LowestNonZeroResult r x = r \<or> LowestNonZeroResult r x = x"
    by (simp add: LowestNonZeroResult_def)
  with Cons.IH [of "LowestNonZeroResult r x"] show ?case by auto
qed

text \<open>The errors of a list of step outcomes, in order.\<close>

lemma errors_of_map_Some:
  "concat (map (\<lambda>e. case e of None \<Rightarrow> [] | Some x \<Rightarrow> [x]) (map Some errs)) = errs"
  by (induction errs) simp_all

lemma NewAggregate_map_Some:
  "NewAggregate (map Some errs) = (if errs = [] then None else Some (Aggregate errs))"
  unfolding NewAggregate_def Let_def errors_of_map_Some by (rule refl)

lemma reconcilePhases_run:
  "runEveryPhaseOnce phases c h = (outs, c', h') \<Longrightarrow>
   reconcilePhases phases res errs c h =
     ((if errs = [] then foldl LowestNonZeroResult res (beforeFirstError outs) else res,
       errs @ concat (map (\<lambda>e. case e of None \<Rightarrow> [] | Some x \<Rightarrow> [x]) (map snd outs))),
      c', h')"
proof (induction phases arbitrary: res errs c h outs c' h')
  case Nil
  then show ?case by (simp add: beforeFirstError_def)
next
  case (Cons phase phases)
  obtain r err c1 h1 where step: "phase c h = ((r, err), c1, h1)"
    by (metis prod.exhaust)
  obtain outs1 c2 h2 where rest: "runEveryPhaseOnce phases c1 h1 = (outs1, c2, h2)"
    by (metis prod.exhaust)
  from Cons.prems step rest have outs: "outs = (r, err) # outs1" and c': "c' = c2" and h': "h' = h2"
    by simp_all
  show ?case
  proof (cases err)
    case None
    show ?thesis
      using Cons.IH [OF rest] step None
      by (simp add: outs c' h' beforeFirstError_def)
  next
    case (Some x)
    show ?thesis
      using Cons.IH [OF rest] step Some
      by (simp add: outs c' h' beforeFirstError_def)
  qed
qed

lemma length_runEveryPhaseOnce:
  "runEveryPhaseOnce phases c h = (outs, c', h') \<Longrightarrow> length outs = length phases"
  by (induction phases arbitrary: c h outs) (auto split: prod.splits)

text \<open>
  Claim C5. On the normal path the loop of \<^verbatim>\<open>reconcile\<close> does what running every one of
  the four phase steps exactly once, in order, does to the Cluster and the store, whether
  or not a step failed. The returned error aggregates the errors of all steps, in order
  (nil when there is none). The requeue-after of the returned result is the lowest non-zero
  requeue-after among the results of the steps that ran before the first failing step
  (zero when there is none); the returned result is one of those results or the empty one,
  so the hints of the failing step and of the steps after it are discarded.
\<close>

theorem reconcile_merges_phases:
  assumes "runEveryPhaseOnce (phasesOf e) c h = (outs, c', h')"
  shows "length outs = 4
       \<and> snd (reconcile e c h) = (c', h')
       \<and> snd (fst (reconcile e c h)) = NewAggregate (map snd outs)
       \<and> RequeueAfter (fst (fst (reconcile e c h)))
           = lowestNonZero (map RequeueAfter (beforeFirstError outs))
       \<and> fst (fst (reconcile e c h)) \<in> set (emptyResult # beforeFirstError outs)"
proof -
  have len: "length outs = 4"
    using length_runEveryPhaseOnce [OF assms] by (simp add: phasesOf_def)
  have loop: "reconcilePhases (phasesOf e) emptyResult [] c h =
      ((foldl LowestNonZeroResult emptyResult (beforeFirstError outs),
        concat (map (\<lambda>e. case e of None \<Rightarrow> [] | Some x \<Rightarrow> [x]) (map snd outs))), c', h')"
    using reconcilePhases_run [OF assms, of emptyResult "[]"] by simp
  have agg: "NewAggregate (map Some
        (concat (map (\<lambda>e. case e of None \<Rightarrow> [] | Some x \<Rightarrow> [x]) (map snd outs))))
      = NewAggregate (map snd outs)"
    unfolding NewAggregate_def Let_def errors_of_map_Some by (rule refl)
  have "RequeueAfter emptyResult = lowestNonZero []"
    by (simp add: emptyResult_def lowestNonZero_def)
  from RequeueAfter_foldl [OF this, of "beforeFirstError outs"]
  have req: "RequeueAfter (foldl LowestNonZeroResult emptyResult (beforeFirstError outs))
      = lowestNonZero (map RequeueAfter (beforeFirstError outs))"
    by simp
  from len loop agg req foldl_LowestNonZeroResult_mem [of emptyResult "beforeFirstError outs"]
  show ?thesis by (simp add: reconcile_def)
qed

theorem reconcile_merges_phases_witness:
  "runEveryPhaseOnce (phasesOf phasesEnv) (clusterOf [ClusterFinalizer] None) []
     = ([(\<lparr>Requeue = False, RequeueAfter = 30\<rparr>, None),
         (\<lparr>Requeue = False, RequeueAfter = 10\<rparr>, None),
         (\<lparr>Requeue = False, RequeueAfter = 1\<rparr>, Some (StatusError ''kubeconfig'')),
         (emptyResult, None)],
        (clusterOf [ClusterFinalizer] None)\<lparr>ControlPlaneInitialized := True\<rparr>,
        [GetActiveMachinesCall ''ns'' ''c''])
   \<and> snd (reconcile phasesEnv (clusterOf [ClusterFinalizer] None) [])
     = ((clusterOf [ClusterFinalizer] None)\<lparr>ControlPlaneInitialized := True\<rparr>,
        [GetActiveMachinesCall ''ns'' ''c''])
   \<and> snd (fst (reconcile phasesEnv (clusterOf [ClusterFinalizer] None) []))
     = Some (Aggregate [StatusError ''kubeconfig''])
   \<and> RequeueAfter (fst (fst (reconcile phasesEnv (clusterOf [ClusterFinalizer] None) []))) = 10"
proof -
  have run: "runEveryPhaseOnce (phasesOf phasesEnv) (clusterOf [ClusterFinalizer] None) []
     = ([(\<lparr>Requeue = False, RequeueAfter = 30\<rparr>, None),
         (\<lparr>Requeue = False, RequeueAfter = 10\<rparr>, None),
         (\<lparr>Requeue = False, RequeueAfter = 1\<rparr>, Some (StatusError ''kubeconfig'')),
         (emptyResult, None)],
        (clusterOf [ClusterFinalizer] None)\<lparr>ControlPlaneInitialized := True\<rparr>,
        [GetActiveMachinesCall ''ns'' ''c''])"
    by (simp add: phasesOf_def phasesEnv_def machinesEnv_def quietEnv_def
        reconcileControlPlaneInitialized_def clusterOf_def metaOf_def workerOf_def
        controlPlaneOf_def ownedMetaOf_def)
  from reconcile_merges_phases [OF run] run
  show ?thesis by (simp add: beforeFirstError_def lowestNonZero_def NewAggregate_def)
qed

section \<open>Properties of the deletion path\<close>

lemma eachListItem_filter:
  "eachListItem e c xs owned = owned @ filter (\<lambda>x. IsOwnedByObject e (Accessor x) c) xs"
  by (induction xs arbitrary: owned) simp_all

lemma filterOwnedDescendants_filter:
  "filterOwnedDescendants e d c =
     filter (\<lambda>x. IsOwnedByObject e (Accessor x) c)
       ((if machinePoolEnabled e then map MachinePoolObj (machinePools d) else []) @
        map MachineDeploymentObj (machineDeployments d) @
        map MachineSetObj (machineSets d) @
        map MachineObj (workerMachines d) @
        map MachineObj (controlPlaneMachines d))"
  by (simp add: filterOwnedDescendants_def eachListItem_filter)

lemma snd_deleteChildren:
  "snd (deleteChildren e children errs h) =
     h @ map DeleteCall (filter (\<lambda>x. IsZero (DeletionTimestamp (Accessor x))) children)"
  by (induction children arbitrary: errs h) (simp_all split: option.splits)

lemma deleteChildren_calls:
  "deleteChildren e children errs h = (errs', h') \<Longrightarrow>
   h' = h @ map DeleteCall (filter (\<lambda>x. IsZero (DeletionTimestamp (Accessor x))) children)"
  using snd_deleteChildren [of e children errs h] by simp

lemma listDescendants_Inr:
  assumes "listDescendants e c h = (Inr d, h1)"
  shows "(\<forall>m \<in> set (workerMachines d). \<not> IsControlPlaneMachine e m)
       \<and> (\<forall>m \<in> set (controlPlaneMachines d). IsControlPlaneMachine e m)
       \<and> (ControlPlaneRef c \<noteq> None \<longrightarrow> controlPlaneMachines d = [])
       \<and> (\<not> machinePoolEnabled e \<longrightarrow> machinePools d = [])"
  using assms
  by (auto simp: listDescendants_def listMachinePoolsGated_def splitMachineList_filter Let_def
      split: sum.splits if_splits prod.splits)

lemma deleteOwnedDescendants_calls:
  assumes "listDescendants e c h = (Inr d, h1)"
  shows "\<exists>errs.
      deleteOwnedDescendants e c h =
        (if errs = [] then Inr (d, h1 @ map DeleteCall
              (filter (\<lambda>x. IsZero (DeletionTimestamp (Accessor x))) (filterOwnedDescendants e d c)))
         else Inl ((emptyResult, NewAggregate (map Some errs)), c,
                h1 @ map DeleteCall
              (filter (\<lambda>x. IsZero (DeletionTimestamp (Accessor x))) (filterOwnedDescendants e d c))))"
proof (cases "filterOwnedDescendants e d c = []")
  case True
  with assms show ?thesis
    by (intro exI [of _ "[]"]) (simp add: deleteOwnedDescendants_def)
next
  case False
  obtain errs h2 where dc: "deleteChildren e (filterOwnedDescendants e d c) [] h1 = (errs, h2)"
    by (metis prod.exhaust)
  from deleteChildren_calls [OF dc] dc assms False show ?thesis
    by (intro exI [of _ errs]) (simp add: deleteOwnedDescendants_def)
qed

lemma deleteOwnedDescendants_Inl:
  "deleteOwnedDescendants e c h = Inl (out, c1, h1) \<Longrightarrow> c1 = c"
  by (auto simp: deleteOwnedDescendants_def Let_def split: prod.splits sum.splits if_splits)

lemma deleteOwnedDescendants_Inr:
  "deleteOwnedDescendants e c h = Inr (d, h2) \<Longrightarrow> \<exists>h1. listDescendants e c h = (Inr d, h1)"
  by (auto simp: deleteOwnedDescendants_def Let_def split: prod.splits sum.splits if_splits)

lemma getCondition_setCondition:
  "getCondition (setCondition cs new) (CondType new) = Some new"
  by (induction cs) simp_all

lemma deleteControlPlaneRef_Inr:
  "deleteControlPlaneRef e c h = Inr (c1, h1) \<Longrightarrow>
     refAbsent e h (ControlPlaneRef c) (Namespace (ObjectMeta c))
   \<and> h1 = h @ refCalls (ControlPlaneRef c) (Namespace (ObjectMeta c))
   \<and> ObjectMeta c1 = ObjectMeta c \<and> InfrastructureRef c1 = InfrastructureRef c
   \<and> ControlPlaneRef c1 = ControlPlaneRef c"
  by (auto simp: deleteControlPlaneRef_def refAbsent_def refCalls_def MarkFalse_def Let_def
      split: option.splits sum.splits if_splits)

lemma deleteControlPlaneRef_Inl:
  "deleteControlPlaneRef e c h = Inl (out, c1, h1) \<Longrightarrow>
     \<not> refAbsent e h (ControlPlaneRef c) (Namespace (ObjectMeta c))
   \<and> ObjectMeta c1 = ObjectMeta c"
  by (auto simp: deleteControlPlaneRef_def refAbsent_def SetMirror_def Let_def
      split: option.splits sum.splits if_splits)

lemma deleteInfrastructureRef_Inr:
  "deleteInfrastructureRef e c h = Inr (c1, h1) \<Longrightarrow>
     refAbsent e h (InfrastructureRef c) (Namespace (ObjectMeta c))
   \<and> h1 = h @ refCalls (InfrastructureRef c) (Namespace (ObjectMeta c))
   \<and> ObjectMeta c1 = ObjectMeta c"
  by (auto simp: deleteInfrastructureRef_def refAbsent_def refCalls_def MarkFalse_def Let_def
      split: option.splits sum.splits if_splits)

lemma deleteInfrastructureRef_Inl:
  "deleteInfrastructureRef e c h = Inl (out, c1, h1) \<Longrightarrow>
     \<not> refAbsent e h (InfrastructureRef c) (Namespace (ObjectMeta c))
   \<and> ObjectMeta c1 = ObjectMeta c"
  by (auto simp: deleteInfrastructureRef_def refAbsent_def SetMirror_def Let_def
      split: option.splits sum.splits if_splits)

lemma deleteControlPlaneRef_no_descendant_delete:
  "deleteControlPlaneRef e c h = r \<Longrightarrow>
   (case r of Inl (out, c1, h1) \<Rightarrow> \<exists>more. h1 = h @ more \<and> filter isDescendantDelete more = []
    | Inr (c1, h1) \<Rightarrow> \<exists>more. h1 = h @ more \<and> filter isDescendantDelete more = [])"
  by (auto simp: deleteControlPlaneRef_def Let_def
      split: option.splits sum.splits if_splits)

lemma deleteInfrastructureRef_no_descendant_delete:
  "deleteInfrastructureRef e c h = r \<Longrightarrow>
   (case r of Inl (out, c1, h1) \<Rightarrow> \<exists>more. h1 = h @ more \<and> filter isDescendantDelete more = []
    | Inr (c1, h1) \<Rightarrow> \<exists>more. h1 = h @ more \<and> filter isDescendantDelete more = [])"
  by (auto simp: deleteInfrastructureRef_def Let_def
      split: option.splits sum.splits if_splits)

section \<open>Evaluating the scenarios\<close>

lemma quietEnv_fields [simp]:
  "clientGetCluster quietEnv = (\<lambda>h ns nm. Inl (NotFound ''cluster''))"
  "listMachineDeployments quietEnv = (\<lambda>h ns nm. Inr [])"
  "listMachineSets quietEnv = (\<lambda>h ns nm. Inr [])"
  "listMachinePools quietEnv = (\<lambda>h ns nm. Inr [])"
  "listMachines quietEnv = (\<lambda>h ns nm. Inr [])"
  "clientDelete quietEnv = (\<lambda>h obj. None)"
  "externalGet quietEnv = (\<lambda>h ref ns. Inl (Wrapf ''failed to retrieve'' (NotFound ''external'')))"
  "getActiveMachinesInCluster quietEnv = (\<lambda>h ns nm. Inr [])"
  "GetClusterByName quietEnv = (\<lambda>h ns nm. Inl (NotFound ''cluster''))"
  "helperPatch quietEnv = (\<lambda>h c opts. None)"
  "NewHelper quietEnv = (\<lambda>c. None)"
  "machinePoolEnabled quietEnv = False"
  "IsControlPlaneMachine quietEnv =
     (\<lambda>m. map_of (Labels (MachineMeta m)) ''cluster.x-k8s.io/control-plane'' \<noteq> None)"
  "IsOwnedByObject quietEnv =
     (\<lambda>obj c. list_ex (\<lambda>r. Kind r = ''Cluster'' \<and> RefName r = Name (ObjectMeta c))
                (OwnerReferences obj))"
  "IsPaused quietEnv = (\<lambda>c. False)"
  "SetSummary quietEnv = (\<lambda>c ts. c)"
  "reconcilePhase quietEnv = (\<lambda>c. c)"
  "reconcileInfrastructure quietEnv = (\<lambda>c h. ((emptyResult, None), c, h))"
  "reconcileControlPlane quietEnv = (\<lambda>c h. ((emptyResult, None), c, h))"
  "reconcileKubeconfig quietEnv = (\<lambda>c h. ((emptyResult, None), c, h))"
  by (simp_all add: quietEnv_def)

lemmas scenario_defs =
  clusterOf_def metaOf_def ownedMetaOf_def ownerRef_def workerOf_def controlPlaneOf_def
  nodeRefOf_def

lemmas deletion_defs =
  reconcileDelete_def deleteOwnedDescendants_def listDescendants_def listMachinePoolsGated_def
  splitMachineList_def filterOwnedDescendants_def deleteControlPlaneRef_def
  deleteInfrastructureRef_def RemoveFinalizer_def setFinalizers_def length_cd_def IsZero_def
  Let_def

text \<open>
  With a descendant that \<^verbatim>\<open>clusterDescendants.length\<close> counts, the pass asks for a
  recheck after five seconds and neither touches the Cluster nor resolves a reference.
\<close>

lemma reconcileDelete_requeue:
  assumes "deleteOwnedDescendants e c h = Inr (d, h1)" and "length_cd d > 0"
  shows "reconcileDelete e c h =
     ((\<lparr>Requeue = False, RequeueAfter = deleteRequeueAfter\<rparr>, None), c, h1)"
  using assms by (simp add: reconcileDelete_def)

text \<open>
  Claim C1 fails on the code. With the MachinePool feature on and a MachinePool as the only
  remaining descendant, the delete step succeeds and the MachinePool is still there, yet
  \<^verbatim>\<open>clusterDescendants.length\<close> is zero: with no external reference set,
  \<^verbatim>\<open>reconcileDelete\<close> returns an empty result (no 5 second requeue) and removes the
  finalizer in the same pass.
\<close>

theorem reconcileDelete_ignores_machinePools:
  "machinePoolEnabled poolEnv
   \<and> fst (listDescendants poolEnv (clusterOf [ClusterFinalizer] (Some 5)) [])
       = Inr \<lparr>machineDeployments = [], machineSets = [], controlPlaneMachines = [],
              workerMachines = [], machinePools = [ownedMetaOf ''pool'']\<rparr>
   \<and> reconcileDelete poolEnv (clusterOf [ClusterFinalizer] (Some 5)) []
       = ((emptyResult, None), clusterOf [] (Some 5),
          [ListMachineDeploymentsCall ''ns'' ''c'', ListMachineSetsCall ''ns'' ''c'',
           ListMachinePoolsCall ''ns'' ''c'', ListMachinesCall ''ns'' ''c'',
           DeleteCall (MachinePoolObj (ownedMetaOf ''pool''))])
   \<and> RequeueAfter emptyResult \<noteq> deleteRequeueAfter"
  by (simp add: deletion_defs scenario_defs poolEnv_def ClusterFinalizer_def emptyResult_def
      deleteRequeueAfter_def)

text \<open>
  Claim C4. Once the descendants are listed, the delete calls on descendants that a
  deletion pass issues are, in this order, those for the owned and not yet deleted
  MachinePools (when the feature is on), MachineDeployments, MachineSets, worker Machines
  and control-plane Machines; no other delete of a descendant is issued. Every worker
  Machine is not a control-plane Machine, every Machine of the last group is one, and
  that group is empty when the Cluster has a ControlPlaneRef.
\<close>

theorem reconcileDelete_deletion_order:
  assumes "listDescendants e c h = (Inr d, h1)"
  shows "(\<exists>issued.
            snd (snd (reconcileDelete e c h)) = h1 @ issued
          \<and> filter isDescendantDelete issued =
              map DeleteCall
                (filter (\<lambda>x. IsOwnedByObject e (Accessor x) c
                            \<and> IsZero (DeletionTimestamp (Accessor x)))
                   ((if machinePoolEnabled e then map MachinePoolObj (machinePools d) else []) @
                    map MachineDeploymentObj (machineDeployments d) @
                    map MachineSetObj (machineSets d) @
                    map MachineObj (workerMachines d) @
                    map MachineObj (controlPlaneMachines d))))
       \<and> (\<forall>m \<in> set (workerMachines d). \<not> IsControlPlaneMachine e m)
       \<and> (\<forall>m \<in> set (controlPlaneMachines d). IsControlPlaneMachine e m)
       \<and> (ControlPlaneRef c \<noteq> None \<longrightarrow> controlPlaneMachines d = [])"
proof -
  let ?L = "(if machinePoolEnabled e then map MachinePoolObj (machinePools d) else []) @
            map MachineDeploymentObj (machineDeployments d) @
            map MachineSetObj (machineSets d) @
            map MachineObj (workerMachines d) @
            map MachineObj (controlPlaneMachines d)"
  let ?dels = "map DeleteCall
      (filter (\<lambda>x. IsZero (DeletionTimestamp (Accessor x))) (filterOwnedDescendants e d c))"
  have "\<forall>x \<in> set ?dels. isDescendantDelete x"
    by (auto simp: filterOwnedDescendants_filter)
  then have keep: "filter isDescendantDelete ?dels = ?dels"
    by (simp only: filter_id_conv)
  have dels: "?dels = map DeleteCall
      (filter (\<lambda>x. IsOwnedByObject e (Accessor x) c \<and> IsZero (DeletionTimestamp (Accessor x))) ?L)"
    by (simp add: filterOwnedDescendants_filter conj_commute)
  from deleteOwnedDescendants_calls [OF assms] obtain errs where stage:
    "deleteOwnedDescendants e c h =
       (if errs = [] then Inr (d, h1 @ ?dels)
        else Inl ((emptyResult, NewAggregate (map Some errs)), c, h1 @ ?dels))"
    by blast
  have "\<exists>more. snd (snd (reconcileDelete e c h)) = h1 @ ?dels @ more
          \<and> filter isDescendantDelete more = []"
  proof (cases "errs = [] \<and> length_cd d = 0")
    case False
    with stage show ?thesis by (auto simp: reconcileDelete_def)
  next
    case True
    show ?thesis
    proof (cases "deleteControlPlaneRef e c (h1 @ ?dels)")
      case (Inl a)
      obtain out c1 h2 where a: "a = (out, c1, h2)" by (metis prod.exhaust)
      from deleteControlPlaneRef_no_descendant_delete [OF Inl] a
      obtain more where "h2 = (h1 @ ?dels) @ more" "filter isDescendantDelete more = []"
        by auto
      with stage True Inl a show ?thesis by (simp add: reconcileDelete_def)
    next
      case (Inr b)
      obtain c1 h2 where b: "b = (c1, h2)" by (metis prod.exhaust)
      from deleteControlPlaneRef_no_descendant_delete [OF Inr] b
      obtain more1 where m1: "h2 = (h1 @ ?dels) @ more1" "filter isDescendantDelete more1 = []"
        by auto
      show ?thesis
      proof (cases "deleteInfrastructureRef e c1 h2")
        case (Inl a)
        obtain out c2 h3 where a: "a = (out, c2, h3)" by (metis prod.exhaust)
        from deleteInfrastructureRef_no_descendant_delete [OF Inl] a
        obtain more2 where "h3 = h2 @ more2" "filter isDescendantDelete more2 = []"
          by auto
        with m1 stage True Inr b Inl a show ?thesis
          by (intro exI [of _ "more1 @ more2"]) (simp add: reconcileDelete_def)
      next
        case Inr2: (Inr b2)
        obtain c2 h3 where b2: "b2 = (c2, h3)" by (metis prod.exhaust)
        from deleteInfrastructureRef_no_descendant_delete [OF Inr2] b2
        obtain more2 where "h3 = h2 @ more2" "filter isDescendantDelete more2 = []"
          by auto
        with m1 stage True Inr b Inr2 b2 show ?thesis
          by (intro exI [of _ "more1 @ more2"]) (simp add: reconcileDelete_def)
      qed
    qed
  qed
  then obtain more where more: "snd (snd (reconcileDelete e c h)) = h1 @ ?dels @ more"
    "filter isDescendantDelete more = []" by blast
  have "snd (snd (reconcileDelete e c h)) = h1 @ (?dels @ more)
      \<and> filter isDescendantDelete (?dels @ more) =
          map DeleteCall
            (filter (\<lambda>x. IsOwnedByObject e (Accessor x) c
                        \<and> IsZero (DeletionTimestamp (Accessor x))) ?L)"
    using more keep dels by (simp only: filter_append append_Nil2 simp_thms)
  then have first: "\<exists>issued. snd (snd (reconcileDelete e c h)) = h1 @ issued
      \<and> filter isDescendantDelete issued =
          map DeleteCall
            (filter (\<lambda>x. IsOwnedByObject e (Accessor x) c
                        \<and> IsZero (DeletionTimestamp (Accessor x))) ?L)"
    by (rule exI)
  from first listDescendants_Inr [OF assms] show ?thesis by blast
qed

theorem reconcileDelete_deletion_order_witness:
  "listDescendants fleetEnv (clusterOf [ClusterFinalizer] (Some 5)) []
     = (Inr \<lparr>machineDeployments = [ownedMetaOf ''md''], machineSets = [ownedMetaOf ''ms''],
             controlPlaneMachines = [controlPlaneOf ''cp''], workerMachines = [workerOf ''w''],
             machinePools = [ownedMetaOf ''pool'']\<rparr>,
        [ListMachineDeploymentsCall ''ns'' ''c'', ListMachineSetsCall ''ns'' ''c'',
         ListMachinePoolsCall ''ns'' ''c'', ListMachinesCall ''ns'' ''c''])
   \<and> filter isDescendantDelete
       (snd (snd (reconcileDelete fleetEnv (clusterOf [ClusterFinalizer] (Some 5)) [])))
     = [DeleteCall (MachinePoolObj (ownedMetaOf ''pool'')),
        DeleteCall (MachineDeploymentObj (ownedMetaOf ''md'')),
        DeleteCall (MachineSetObj (ownedMetaOf ''ms'')),
        DeleteCall (MachineObj (workerOf ''w'')),
        DeleteCall (MachineObj (controlPlaneOf ''cp''))]"
proof -
  have listed: "listDescendants fleetEnv (clusterOf [ClusterFinalizer] (Some 5)) []
     = (Inr \<lparr>machineDeployments = [ownedMetaOf ''md''], machineSets = [ownedMetaOf ''ms''],
             controlPlaneMachines = [controlPlaneOf ''cp''], workerMachines = [workerOf ''w''],
             machinePools = [ownedMetaOf ''pool'']\<rparr>,
        [ListMachineDeploymentsCall ''ns'' ''c'', ListMachineSetsCall ''ns'' ''c'',
         ListMachinePoolsCall ''ns'' ''c'', ListMachinesCall ''ns'' ''c''])"
    by (simp add: deletion_defs scenario_defs fleetEnv_def)
  have facts: "machinePoolEnabled fleetEnv"
    "IsOwnedByObject fleetEnv (ownedMetaOf nm) (clusterOf [ClusterFinalizer] (Some 5))"
    "IsOwnedByObject fleetEnv (MachineMeta (workerOf nm)) (clusterOf [ClusterFinalizer] (Some 5))"
    "IsOwnedByObject fleetEnv (MachineMeta (controlPlaneOf nm))
       (clusterOf [ClusterFinalizer] (Some 5))"
    "IsZero (DeletionTimestamp (ownedMetaOf nm))"
    "IsZero (DeletionTimestamp (MachineMeta (workerOf nm)))"
    "IsZero (DeletionTimestamp (MachineMeta (controlPlaneOf nm)))" for nm
    by (simp_all add: scenario_defs fleetEnv_def IsZero_def)
  from reconcileDelete_deletion_order [OF listed] obtain issued where
    "snd (snd (reconcileDelete fleetEnv (clusterOf [ClusterFinalizer] (Some 5)) []))
       = [ListMachineDeploymentsCall ''ns'' ''c'', ListMachineSetsCall ''ns'' ''c'',
          ListMachinePoolsCall ''ns'' ''c'', ListMachinesCall ''ns'' ''c''] @ issued"
    "filter isDescendantDelete issued
     = [DeleteCall (MachinePoolObj (ownedMetaOf ''pool'')),
        DeleteCall (MachineDeploymentObj (ownedMetaOf ''md'')),
        DeleteCall (MachineSetObj (ownedMetaOf ''ms'')),
        DeleteCall (MachineObj (workerOf ''w'')),
        DeleteCall (MachineObj (controlPlaneOf ''cp''))]"
    by (auto simp: facts)
  with listed show ?thesis by simp
qed

text \<open>
  What a deletion pass does to the finalizers, by the stages of \<^verbatim>\<open>reconcileDelete\<close>.
\<close>

lemma reconcileDelete_finalizer_gate:
  assumes "reconcileDelete e c h = ((res, err), c', h')"
  shows "(Finalizers (ObjectMeta c') = Finalizers (ObjectMeta c)
          \<or> Finalizers (ObjectMeta c')
               = filter (\<lambda>f. f \<noteq> ClusterFinalizer) (Finalizers (ObjectMeta c)))
       \<and> (Finalizers (ObjectMeta c') \<noteq> Finalizers (ObjectMeta c)
            \<longrightarrow> err = None
              \<and> (case deleteOwnedDescendants e c h of
                    Inl out \<Rightarrow> False
                  | Inr (d, h1) \<Rightarrow>
                      length_cd d = 0
                      \<and> refAbsent e h1 (ControlPlaneRef c) (Namespace (ObjectMeta c))
                      \<and> refAbsent e
                            (h1 @ refCalls (ControlPlaneRef c) (Namespace (ObjectMeta c)))
                            (InfrastructureRef c) (Namespace (ObjectMeta c))))
       \<and> ((case deleteOwnedDescendants e c h of
              Inl out \<Rightarrow> False
            | Inr (d, h1) \<Rightarrow>
                length_cd d = 0
                \<and> refAbsent e h1 (ControlPlaneRef c) (Namespace (ObjectMeta c))
                \<and> refAbsent e (h1 @ refCalls (ControlPlaneRef c) (Namespace (ObjectMeta c)))
                      (InfrastructureRef c) (Namespace (ObjectMeta c)))
            \<longrightarrow> Finalizers (ObjectMeta c')
                  = filter (\<lambda>f. f \<noteq> ClusterFinalizer) (Finalizers (ObjectMeta c))
              \<and> ClusterFinalizer \<notin> set (Finalizers (ObjectMeta c'))
              \<and> res = emptyResult \<and> err = None)"
proof (cases "deleteOwnedDescendants e c h")
  case (Inl a)
  obtain out c1 h1 where a: "a = (out, c1, h1)" by (metis prod.exhaust)
  from deleteOwnedDescendants_Inl [of e c h out c1 h1] Inl a have "c1 = c" by simp
  with assms Inl a show ?thesis
    by (auto simp: reconcileDelete_def)
next
  case (Inr b)
  obtain d h1 where b: "b = (d, h1)" by (metis prod.exhaust)
  show ?thesis
  proof (cases "length_cd d > 0")
    case True
    with assms Inr b show ?thesis
      by (auto simp: reconcileDelete_def)
  next
    case drained: False
    show ?thesis
    proof (cases "deleteControlPlaneRef e c h1")
      case (Inl a)
      obtain out c1 h2 where a: "a = (out, c1, h2)" by (metis prod.exhaust)
      from deleteControlPlaneRef_Inl [of e c h1 out c1 h2] Inl a
      have "\<not> refAbsent e h1 (ControlPlaneRef c) (Namespace (ObjectMeta c))"
        "ObjectMeta c1 = ObjectMeta c" by simp_all
      with assms \<open>deleteOwnedDescendants e c h = Inr b\<close> b drained Inl a show ?thesis
        by (auto simp: reconcileDelete_def)
    next
      case cp: (Inr b1)
      obtain c1 h2 where b1: "b1 = (c1, h2)" by (metis prod.exhaust)
      from deleteControlPlaneRef_Inr [of e c h1 c1 h2] cp b1
      have cpf: "refAbsent e h1 (ControlPlaneRef c) (Namespace (ObjectMeta c))"
        "h2 = h1 @ refCalls (ControlPlaneRef c) (Namespace (ObjectMeta c))"
        "ObjectMeta c1 = ObjectMeta c" "InfrastructureRef c1 = InfrastructureRef c"
        by simp_all
      show ?thesis
      proof (cases "deleteInfrastructureRef e c1 h2")
        case (Inl a)
        obtain out c2 h3 where a: "a = (out, c2, h3)" by (metis prod.exhaust)
        from deleteInfrastructureRef_Inl [of e c1 h2 out c2 h3] Inl a
        have "\<not> refAbsent e h2 (InfrastructureRef c1) (Namespace (ObjectMeta c1))"
          "ObjectMeta c2 = ObjectMeta c1" by simp_all
        with assms \<open>deleteOwnedDescendants e c h = Inr b\<close> b drained cp b1 cpf Inl a
        show ?thesis
          by (auto simp: reconcileDelete_def)
      next
        case infra: (Inr b2)
        obtain c2 h3 where b2: "b2 = (c2, h3)" by (metis prod.exhaust)
        from deleteInfrastructureRef_Inr [of e c1 h2 c2 h3] infra b2
        have "refAbsent e h2 (InfrastructureRef c1) (Namespace (ObjectMeta c1))"
          "ObjectMeta c2 = ObjectMeta c1" by simp_all
        with assms \<open>deleteOwnedDescendants e c h = Inr b\<close> b drained cp b1 cpf infra b2
        show ?thesis
          by (auto simp: reconcileDelete_def RemoveFinalizer_def setFinalizers_def)
      qed
    qed
  qed
qed

lemma deleteOwnedDescendants_none:
  assumes "listDescendants e c h = (Inr d, h1)"
    and "machineDeployments d = []" and "machineSets d = []" and "controlPlaneMachines d = []"
    and "workerMachines d = []" and "machinePools d = []"
  shows "deleteOwnedDescendants e c h = Inr (d, h1)" and "length_cd d = 0"
  using assms
  by (simp_all add: deleteOwnedDescendants_def filterOwnedDescendants_filter length_cd_def)

lemma length_cd_zero:
  "length_cd d = 0 \<longleftrightarrow>
     machineDeployments d = [] \<and> machineSets d = []
     \<and> controlPlaneMachines d = [] \<and> workerMachines d = []"
  by (auto simp: length_cd_def)

text \<open>
  Claim C2 fails on the code. The Cluster is being deleted, has no descendant and no
  external reference, and is held by another finalizer besides the Cluster finalizer. The
  first pass of \<^verbatim>\<open>Reconcile\<close> removes the Cluster finalizer and patches the Cluster
  without it; the next pass fetches that Cluster, finds the finalizer absent and adds it
  again.
\<close>

theorem Reconcile_readds_finalizer_counterexample:
  "clientGetCluster storeEnv [] ''ns'' ''c''
     = Inr (clusterOf [''foregroundDeletion'', ClusterFinalizer] (Some 5))
   \<and> listDescendants storeEnv (clusterOf [''foregroundDeletion'', ClusterFinalizer] (Some 5))
       [GetClusterCall ''ns'' ''c'']
     = (Inr noDescendants, [GetClusterCall ''ns'' ''c''] @ listCalls)
   \<and> ControlPlaneRef (clusterOf [''foregroundDeletion'', ClusterFinalizer] (Some 5)) = None
   \<and> InfrastructureRef (clusterOf [''foregroundDeletion'', ClusterFinalizer] (Some 5)) = None
   \<and> Reconcile storeEnv requestOf [] = ((emptyResult, None), firstPass)
   \<and> lastPatched firstPass = Some (clusterOf [''foregroundDeletion''] (Some 5))
   \<and> ClusterFinalizer \<notin> set (Finalizers (ObjectMeta (clusterOf [''foregroundDeletion''] (Some 5))))
   \<and> Reconcile storeEnv requestOf firstPass
       = ((emptyResult, None),
          firstPass @
          [GetClusterCall ''ns'' ''c'',
           PatchCall (clusterOf [''foregroundDeletion'', ClusterFinalizer] (Some 5))
             [WithStatusObservedGeneration,
              WithOwnedConditions
                [ReadyCondition, ControlPlaneReadyCondition, InfrastructureReadyCondition]]])"
  by (simp add: Reconcile_def deferredPatch_def patchCluster_def reconcileBody_def
      ContainsFinalizer_def AddFinalizer_def deletion_defs scenario_defs storeEnv_def
      firstPass_def requestOf_def noDescendants_def listCalls_def ClusterFinalizer_def)

text \<open>
  Claim C2 as amended. A deletion pass either leaves the finalizers as they are or removes
  the Cluster finalizer (every occurrence of it, and nothing else); it adds none. It changes
  them only when the owned descendants were listed and deleted without error, no
  MachineDeployment, MachineSet, control-plane Machine or worker Machine is among the listed
  descendants, and ControlPlaneRef and InfrastructureRef are each nil or resolve to NotFound;
  the pass then returns no error. When the listing finds no descendant of any kind and both
  references are absent, the Cluster finalizer is gone after the pass, with an empty result
  and no error. Within a pass of \<^verbatim>\<open>Reconcile\<close> on a Cluster that is being deleted and
  carries the Cluster finalizer, the body is \<^verbatim>\<open>reconcileDelete\<close> alone, so the finalizer is
  not added back in that pass; a pass that finds the Cluster finalizer absent adds it and
  returns. What happens while only MachinePools remain is not part of the statement.
\<close>

theorem reconcileDelete_finalizer:
  assumes "reconcileDelete e c h = ((res, err), c', h')"
  shows "(Finalizers (ObjectMeta c') = Finalizers (ObjectMeta c)
          \<or> Finalizers (ObjectMeta c')
               = filter (\<lambda>f. f \<noteq> ClusterFinalizer) (Finalizers (ObjectMeta c)))
       \<and> (Finalizers (ObjectMeta c') \<noteq> Finalizers (ObjectMeta c)
            \<longrightarrow> deletionComplete e c h \<and> err = None)
       \<and> (\<forall>d h1.
             listDescendants e c h = (Inr d, h1)
             \<and> machineDeployments d = [] \<and> machineSets d = [] \<and> controlPlaneMachines d = []
             \<and> workerMachines d = [] \<and> machinePools d = []
             \<and> refAbsent e h1 (ControlPlaneRef c) (Namespace (ObjectMeta c))
             \<and> refAbsent e (h1 @ refCalls (ControlPlaneRef c) (Namespace (ObjectMeta c)))
                   (InfrastructureRef c) (Namespace (ObjectMeta c))
             \<longrightarrow> Finalizers (ObjectMeta c')
                   = filter (\<lambda>f. f \<noteq> ClusterFinalizer) (Finalizers (ObjectMeta c))
                 \<and> ClusterFinalizer \<notin> set (Finalizers (ObjectMeta c'))
                 \<and> res = emptyResult \<and> err = None)
       \<and> (ContainsFinalizer c ClusterFinalizer \<and> \<not> IsZero (DeletionTimestamp (ObjectMeta c))
            \<longrightarrow> reconcileBody e c h = ((res, err), c', h'))
       \<and> (\<forall>c0 h0. \<not> ContainsFinalizer c0 ClusterFinalizer
            \<longrightarrow> reconcileBody e c0 h0
                  = ((emptyResult, None),
                     setFinalizers c0 (Finalizers (ObjectMeta c0) @ [ClusterFinalizer]), h0))"
proof -
  note gate = reconcileDelete_finalizer_gate [OF assms]
  have only: "deletionComplete e c h \<and> err = None"
    if "Finalizers (ObjectMeta c') \<noteq> Finalizers (ObjectMeta c)"
    using gate that
    by (auto simp: deletionComplete_def length_cd_zero split: sum.splits)
  have gone: "Finalizers (ObjectMeta c')
                = filter (\<lambda>f. f \<noteq> ClusterFinalizer) (Finalizers (ObjectMeta c))
              \<and> ClusterFinalizer \<notin> set (Finalizers (ObjectMeta c'))
              \<and> res = emptyResult \<and> err = None"
    if listed: "listDescendants e c h = (Inr d, h1)"
      and none: "machineDeployments d = []" "machineSets d = []" "controlPlaneMachines d = []"
        "workerMachines d = []" "machinePools d = []"
      and refs: "refAbsent e h1 (ControlPlaneRef c) (Namespace (ObjectMeta c))"
        "refAbsent e (h1 @ refCalls (ControlPlaneRef c) (Namespace (ObjectMeta c)))
           (InfrastructureRef c) (Namespace (ObjectMeta c))"
    for d h1
    using gate deleteOwnedDescendants_none [OF listed none] refs by simp
  have body: "reconcileBody e c h = ((res, err), c', h')"
    if "ContainsFinalizer c ClusterFinalizer" "\<not> IsZero (DeletionTimestamp (ObjectMeta c))"
    using that assms by (simp add: reconcileBody_def)
  have add: "reconcileBody e c0 h0
      = ((emptyResult, None),
         setFinalizers c0 (Finalizers (ObjectMeta c0) @ [ClusterFinalizer]), h0)"
    if "\<not> ContainsFinalizer c0 ClusterFinalizer" for c0 h0
    using that by (simp add: reconcileBody_def AddFinalizer_def ContainsFinalizer_def)
  from gate only gone body add show ?thesis by blast
qed

theorem reconcileDelete_finalizer_witness:
  "reconcileDelete providerEnv
      ((clusterOf [''other'', ClusterFinalizer] (Some 5))
         \<lparr>InfrastructureRef := Some (refOf ''infra'')\<rparr>) []
     = ((emptyResult, None),
        MarkFalse ((clusterOf [''other''] (Some 5))\<lparr>InfrastructureRef := Some (refOf ''infra'')\<rparr>)
          InfrastructureReadyCondition DeletedReason ConditionSeverityInfo [],
        [ListMachineDeploymentsCall ''ns'' ''c'', ListMachineSetsCall ''ns'' ''c'',
         ListMachinesCall ''ns'' ''c'', ExternalGetCall (refOf ''infra'') ''ns''])
   \<and> deletionComplete providerEnv
        ((clusterOf [''other'', ClusterFinalizer] (Some 5))
           \<lparr>InfrastructureRef := Some (refOf ''infra'')\<rparr>) []
   \<and> Finalizers (ObjectMeta (MarkFalse
        ((clusterOf [''other''] (Some 5))\<lparr>InfrastructureRef := Some (refOf ''infra'')\<rparr>)
          InfrastructureReadyCondition DeletedReason ConditionSeverityInfo []))
       \<noteq> Finalizers (ObjectMeta ((clusterOf [''other'', ClusterFinalizer] (Some 5))
           \<lparr>InfrastructureRef := Some (refOf ''infra'')\<rparr>))
   \<and> ClusterFinalizer \<notin> set (Finalizers (ObjectMeta (MarkFalse
        ((clusterOf [''other''] (Some 5))\<lparr>InfrastructureRef := Some (refOf ''infra'')\<rparr>)
          InfrastructureReadyCondition DeletedReason ConditionSeverityInfo [])))"
proof -
  have run: "reconcileDelete providerEnv
      ((clusterOf [''other'', ClusterFinalizer] (Some 5))
         \<lparr>InfrastructureRef := Some (refOf ''infra'')\<rparr>) []
     = ((emptyResult, None),
        MarkFalse ((clusterOf [''other''] (Some 5))\<lparr>InfrastructureRef := Some (refOf ''infra'')\<rparr>)
          InfrastructureReadyCondition DeletedReason ConditionSeverityInfo [],
        [ListMachineDeploymentsCall ''ns'' ''c'', ListMachineSetsCall ''ns'' ''c'',
         ListMachinesCall ''ns'' ''c'', ExternalGetCall (refOf ''infra'') ''ns''])"
    by (simp add: deletion_defs scenario_defs providerEnv_def refOf_def MarkFalse_def
        ClusterFinalizer_def)
  have changed: "Finalizers (ObjectMeta (MarkFalse
        ((clusterOf [''other''] (Some 5))\<lparr>InfrastructureRef := Some (refOf ''infra'')\<rparr>)
          InfrastructureReadyCondition DeletedReason ConditionSeverityInfo []))
       \<noteq> Finalizers (ObjectMeta ((clusterOf [''other'', ClusterFinalizer] (Some 5))
           \<lparr>InfrastructureRef := Some (refOf ''infra'')\<rparr>))"
    by (simp add: scenario_defs MarkFalse_def)
  note only = reconcileDelete_finalizer [OF run, THEN conjunct2, THEN conjunct1]
  from only changed have "deletionComplete providerEnv
        ((clusterOf [''other'', ClusterFinalizer] (Some 5))
           \<lparr>InfrastructureRef := Some (refOf ''infra'')\<rparr>) []"
    by simp
  moreover have "ClusterFinalizer \<notin> set (Finalizers (ObjectMeta (MarkFalse
        ((clusterOf [''other''] (Some 5))\<lparr>InfrastructureRef := Some (refOf ''infra'')\<rparr>)
          InfrastructureReadyCondition DeletedReason ConditionSeverityInfo [])))"
    by (simp add: scenario_defs MarkFalse_def ClusterFinalizer_def)
  ultimately show ?thesis using run changed by simp
qed

lemma getCondition_setCondition_type:
  "CondType new = t \<Longrightarrow> getCondition (setCondition cs new) t = Some new"
  using getCondition_setCondition [of cs new] by simp

lemma deleteControlPlaneRef_absent:
  assumes "refAbsent e h (ControlPlaneRef c) (Namespace (ObjectMeta c))"
  shows "deleteControlPlaneRef e c h =
     Inr (if ControlPlaneRef c = None then c
          else MarkFalse c ControlPlaneReadyCondition DeletedReason ConditionSeverityInfo [],
          h @ refCalls (ControlPlaneRef c) (Namespace (ObjectMeta c)))"
  using assms
  by (auto simp: deleteControlPlaneRef_def refAbsent_def refCalls_def Let_def
      split: option.splits sum.splits)

text \<open>
  Claim C6. Take a deletion pass whose owned-descendant step succeeded and whose descendant
  count is zero. If ControlPlaneRef is set and resolving it gives an error whose cause is
  NotFound, the control-plane-readiness condition becomes False with reason Deleted
  (severity Info, empty message) and the pass goes on to the InfrastructureRef block; on any
  other error the pass returns that error, wrapped, with the Cluster untouched; and if the
  object is found, its readiness condition is mirrored onto the control-plane-readiness
  condition (False with reason Deleting when it has none), one delete of the object is
  issued as the last call, the pass returns at once with the error of that delete, if
  any, and the finalizers are as before. The same holds for InfrastructureRef and the
  infrastructure-readiness condition once ControlPlaneRef is absent (nil or NotFound), where
  going on means removing the finalizer.
\<close>

theorem reconcileDelete_external_refs:
  assumes "deleteOwnedDescendants e c h = Inr (d, h1)" and "length_cd d = 0"
  shows "(\<forall>ref. ControlPlaneRef c = Some ref \<longrightarrow>
           (case externalGet e h1 ref (Namespace (ObjectMeta c)) of
              Inl err \<Rightarrow>
                (if IsNotFound (Cause err) then
                   getCondition
                     (Conditions (MarkFalse c ControlPlaneReadyCondition DeletedReason
                        ConditionSeverityInfo [])) ControlPlaneReadyCondition
                     = Some \<lparr>CondType = ControlPlaneReadyCondition, Status = ConditionFalse,
                             Severity = ConditionSeverityInfo, Reason = ''Deleted'',
                             Message = []\<rparr>
                   \<and> reconcileDelete e c h =
                       (case deleteInfrastructureRef e
                               (MarkFalse c ControlPlaneReadyCondition DeletedReason
                                  ConditionSeverityInfo [])
                               (h1 @ [ExternalGetCall ref (Namespace (ObjectMeta c))]) of
                          Inl out \<Rightarrow> out
                        | Inr (c2, h3) \<Rightarrow>
                            ((emptyResult, None), RemoveFinalizer c2 ClusterFinalizer, h3))
                 else
                   reconcileDelete e c h =
                     ((emptyResult, Some (Wrapf ''failed to get %s %q for Cluster %s/%s'' err)),
                      c, h1 @ [ExternalGetCall ref (Namespace (ObjectMeta c))]))
            | Inr obj \<Rightarrow>
                reconcileDelete e c h =
                  ((emptyResult,
                    map_option (Wrapf ''failed to delete %v %q for Cluster %q in namespace %q'')
                      (clientDelete e (h1 @ [ExternalGetCall ref (Namespace (ObjectMeta c))])
                         (UnstructuredObj obj))),
                   SetMirror c ControlPlaneReadyCondition (UConditions obj) False DeletingReason
                     ConditionSeverityInfo [],
                   h1 @ [ExternalGetCall ref (Namespace (ObjectMeta c)),
                         DeleteCall (UnstructuredObj obj)])
                \<and> getCondition
                    (Conditions (SetMirror c ControlPlaneReadyCondition (UConditions obj) False
                       DeletingReason ConditionSeverityInfo [])) ControlPlaneReadyCondition
                    = Some (case getCondition (UConditions obj) ReadyCondition of
                              Some cond \<Rightarrow> cond\<lparr>CondType := ControlPlaneReadyCondition\<rparr>
                            | None \<Rightarrow>
                                \<lparr>CondType = ControlPlaneReadyCondition, Status = ConditionFalse,
                                 Severity = ConditionSeverityInfo, Reason = ''Deleting'',
                                 Message = []\<rparr>)
                \<and> Finalizers (ObjectMeta (SetMirror c ControlPlaneReadyCondition
                      (UConditions obj) False DeletingReason ConditionSeverityInfo []))
                    = Finalizers (ObjectMeta c)))
       \<and> (\<forall>ref c1 h2.
             refAbsent e h1 (ControlPlaneRef c) (Namespace (ObjectMeta c))
             \<and> c1 = (if ControlPlaneRef c = None then c
                     else MarkFalse c ControlPlaneReadyCondition DeletedReason
                            ConditionSeverityInfo [])
             \<and> h2 = h1 @ refCalls (ControlPlaneRef c) (Namespace (ObjectMeta c))
             \<and> InfrastructureRef c = Some ref \<longrightarrow>
           (case externalGet e h2 ref (Namespace (ObjectMeta c)) of
              Inl err \<Rightarrow>
                (if IsNotFound (Cause err) then
                   getCondition
                     (Conditions (MarkFalse c1 InfrastructureReadyCondition DeletedReason
                        ConditionSeverityInfo [])) InfrastructureReadyCondition
                     = Some \<lparr>CondType = InfrastructureReadyCondition, Status = ConditionFalse,
                             Severity = ConditionSeverityInfo, Reason = ''Deleted'',
                             Message = []\<rparr>
                   \<and> reconcileDelete e c h =
                       ((emptyResult, None),
                        RemoveFinalizer
                          (MarkFalse c1 InfrastructureReadyCondition DeletedReason
                             ConditionSeverityInfo []) ClusterFinalizer,
                        h2 @ [ExternalGetCall ref (Namespace (ObjectMeta c))])
                 else
                   reconcileDelete e c h =
                     ((emptyResult, Some (Wrapf ''failed to get %s %q for Cluster %s/%s'' err)),
                      c1, h2 @ [ExternalGetCall ref (Namespace (ObjectMeta c))]))
            | Inr obj \<Rightarrow>
                reconcileDelete e c h =
                  ((emptyResult,
                    map_option (Wrapf ''failed to delete %v %q for Cluster %q in namespace %q'')
                      (clientDelete e (h2 @ [ExternalGetCall ref (Namespace (ObjectMeta c))])
                         (UnstructuredObj obj))),
                   SetMirror c1 InfrastructureReadyCondition (UConditions obj) False
                     DeletingReason ConditionSeverityInfo [],
                   h2 @ [ExternalGetCall ref (Namespace (ObjectMeta c)),
                         DeleteCall (UnstructuredObj obj)])
                \<and> getCondition
                    (Conditions (SetMirror c1 InfrastructureReadyCondition (UConditions obj) False
                       DeletingReason ConditionSeverityInfo [])) InfrastructureReadyCondition
                    = Some (case getCondition (UConditions obj) ReadyCondition of
                              Some cond \<Rightarrow> cond\<lparr>CondType := InfrastructureReadyCondition\<rparr>
                            | None \<Rightarrow>
                                \<lparr>CondType = InfrastructureReadyCondition,
                                 Status = ConditionFalse, Severity = ConditionSeverityInfo,
                                 Reason = ''Deleting'', Message = []\<rparr>)
                \<and> Finalizers (ObjectMeta (SetMirror c1 InfrastructureReadyCondition
                      (UConditions obj) False DeletingReason ConditionSeverityInfo []))
                    = Finalizers (ObjectMeta c)))"
  using assms
  apply (intro conjI allI impI)
  subgoal for ref
    by (auto simp: reconcileDelete_def deleteControlPlaneRef_def MarkFalse_def SetMirror_def
        FalseCondition_def DeletedReason_def DeletingReason_def Let_def
        getCondition_setCondition_type
        split: sum.splits option.splits)
  subgoal for ref c1 h2
    apply (elim conjE)
    apply (frule deleteControlPlaneRef_absent)
    by (auto simp: reconcileDelete_def deleteInfrastructureRef_def MarkFalse_def SetMirror_def
        FalseCondition_def DeletedReason_def DeletingReason_def Let_def
        getCondition_setCondition_type
        split: sum.splits option.splits)
  done

theorem reconcileDelete_external_refs_witness:
  "deleteOwnedDescendants providerEnv clusterWithProvider [] = Inr (noDescendants, listCalls)
   \<and> length_cd noDescendants = 0
   \<and> ControlPlaneRef clusterWithProvider = Some (refOf ''cp'')
   \<and> reconcileDelete providerEnv clusterWithProvider []
       = ((emptyResult, None),
          clusterWithProvider
            \<lparr>Conditions :=
               [\<lparr>CondType = ControlPlaneReadyCondition, Status = ConditionFalse,
                 Severity = ConditionSeverityInfo, Reason = ''Deleting'', Message = []\<rparr>]\<rparr>,
          listCalls @ [ExternalGetCall (refOf ''cp'') ''ns'', DeleteCall (UnstructuredObj providerObj)])
   \<and> deleteOwnedDescendants providerEnv clusterWithBrokenInfra []
       = Inr (noDescendants, listCalls)
   \<and> refAbsent providerEnv listCalls (ControlPlaneRef clusterWithBrokenInfra) ''ns''
   \<and> InfrastructureRef clusterWithBrokenInfra = Some (refOf ''broken'')
   \<and> reconcileDelete providerEnv clusterWithBrokenInfra []
       = ((emptyResult,
           Some (Wrapf ''failed to get %s %q for Cluster %s/%s''
                  (Wrapf ''failed to retrieve'' (StatusError ''timeout'')))),
          clusterWithBrokenInfra
            \<lparr>Conditions :=
               [\<lparr>CondType = ControlPlaneReadyCondition, Status = ConditionFalse,
                 Severity = ConditionSeverityInfo, Reason = ''Deleted'', Message = []\<rparr>]\<rparr>,
          listCalls @ [ExternalGetCall (refOf ''gone'') ''ns'',
                       ExternalGetCall (refOf ''broken'') ''ns''])"
proof -
  have stageA: "deleteOwnedDescendants providerEnv clusterWithProvider []
      = Inr (noDescendants, listCalls)"
    by (simp add: deletion_defs scenario_defs providerEnv_def clusterWithProvider_def
        noDescendants_def listCalls_def)
  have stageB: "deleteOwnedDescendants providerEnv clusterWithBrokenInfra []
      = Inr (noDescendants, listCalls)"
    by (simp add: deletion_defs scenario_defs providerEnv_def clusterWithBrokenInfra_def
        noDescendants_def listCalls_def)
  have drained: "length_cd noDescendants = 0"
    by (simp add: length_cd_def noDescendants_def)
  have refs: "ControlPlaneRef clusterWithProvider = Some (refOf ''cp'')"
    "ControlPlaneRef clusterWithBrokenInfra = Some (refOf ''gone'')"
    "InfrastructureRef clusterWithBrokenInfra = Some (refOf ''broken'')"
    "Namespace (ObjectMeta clusterWithProvider) = ''ns''"
    "Namespace (ObjectMeta clusterWithBrokenInfra) = ''ns''"
    "Conditions clusterWithProvider = []" "Conditions clusterWithBrokenInfra = []"
    by (simp_all add: clusterWithProvider_def clusterWithBrokenInfra_def scenario_defs)
  have gets: "externalGet providerEnv k (refOf ''cp'') ''ns'' = Inr providerObj"
    "externalGet providerEnv k (refOf ''gone'') ''ns''
       = Inl (Wrapf ''failed to retrieve'' (NotFound ''external''))"
    "externalGet providerEnv k (refOf ''broken'') ''ns''
       = Inl (Wrapf ''failed to retrieve'' (StatusError ''timeout''))"
    "clientDelete providerEnv k x = None" "UConditions providerObj = []" for k x
    by (simp_all add: providerEnv_def refOf_def providerObj_def)
  have absent: "refAbsent providerEnv listCalls (ControlPlaneRef clusterWithBrokenInfra) ''ns''"
    by (simp add: refAbsent_def refs gets)
  from reconcileDelete_external_refs [OF stageA drained]
  have runA: "reconcileDelete providerEnv clusterWithProvider []
       = ((emptyResult, None),
          clusterWithProvider
            \<lparr>Conditions :=
               [\<lparr>CondType = ControlPlaneReadyCondition, Status = ConditionFalse,
                 Severity = ConditionSeverityInfo, Reason = ''Deleting'', Message = []\<rparr>]\<rparr>,
          listCalls @ [ExternalGetCall (refOf ''cp'') ''ns'', DeleteCall (UnstructuredObj providerObj)])"
    by (simp add: refs gets SetMirror_def FalseCondition_def DeletingReason_def)
  from reconcileDelete_external_refs [OF stageB drained] absent
  have runB: "reconcileDelete providerEnv clusterWithBrokenInfra []
       = ((emptyResult,
           Some (Wrapf ''failed to get %s %q for Cluster %s/%s''
                  (Wrapf ''failed to retrieve'' (StatusError ''timeout'')))),
          clusterWithBrokenInfra
            \<lparr>Conditions :=
               [\<lparr>CondType = ControlPlaneReadyCondition, Status = ConditionFalse,
                 Severity = ConditionSeverityInfo, Reason = ''Deleted'', Message = []\<rparr>]\<rparr>,
          listCalls @ [ExternalGetCall (refOf ''gone'') ''ns'',
                       ExternalGetCall (refOf ''broken'') ''ns''])"
    by (auto simp: refs gets refCalls_def MarkFalse_def FalseCondition_def DeletedReason_def)
  from stageA stageB drained refs absent runA runB show ?thesis by simp
qed

section \<open>Properties of Reconcile\<close>

lemma reconcileDelete_adds_no_finalizer:
  "reconcileDelete e c h = (out, c', h') \<Longrightarrow>
     Finalizers (ObjectMeta c') = Finalizers (ObjectMeta c)
   \<or> Finalizers (ObjectMeta c')
        = filter (\<lambda>f. f \<noteq> ClusterFinalizer) (Finalizers (ObjectMeta c))"
  by (auto simp: reconcileDelete_def RemoveFinalizer_def setFinalizers_def
      split: sum.splits prod.splits if_splits
      dest!: deleteOwnedDescendants_Inl deleteControlPlaneRef_Inl deleteControlPlaneRef_Inr
        deleteInfrastructureRef_Inl deleteInfrastructureRef_Inr)

lemma Reconcile_reaches_deferred:
  assumes "clientGetCluster e h (ReqNamespace req) (ReqName req) = Inr c"
    and "\<not> IsPaused e c" and "NewHelper e c = None"
  shows "Reconcile e req h =
     (case deferredPatch e
             (reconcileBody e c (h @ [GetClusterCall (ReqNamespace req) (ReqName req)])) of
        (out, c2, h2) \<Rightarrow> (out, h2))"
  using assms by (simp add: Reconcile_def Let_def)

text \<open>
  Claim C9. Whenever \<^verbatim>\<open>Reconcile\<close> gets past fetching the Cluster, the pause check and the
  patch helper, whichever way its body returns, it ends with exactly one more call: a patch
  of the Cluster the body left, with the phase recomputed and the summary set. The options
  of that patch are \<^verbatim>\<open>WithStatusObservedGeneration\<close>, present exactly when the body
  returned no error, followed by \<^verbatim>\<open>WithOwnedConditions\<close> with the readiness,
  control-plane-readiness and infrastructure-readiness types. The result is the body's, and
  the error is the body's unless the patch fails, which is then aggregated with it.
\<close>

theorem Reconcile_deferred_patch:
  assumes "clientGetCluster e h (ReqNamespace req) (ReqName req) = Inr c"
    and "\<not> IsPaused e c" and "NewHelper e c = None"
    and "reconcileBody e c (h @ [GetClusterCall (ReqNamespace req) (ReqName req)])
           = ((res, reterr), c1, h1)"
    and "patched = SetSummary e (reconcilePhase e c1)
           [ControlPlaneReadyCondition, InfrastructureReadyCondition]"
    and "opts = (if reterr = None then [WithStatusObservedGeneration] else []) @
           [WithOwnedConditions
              [ReadyCondition, ControlPlaneReadyCondition, InfrastructureReadyCondition]]"
  shows "snd (Reconcile e req h) = h1 @ [PatchCall patched opts]
       \<and> (WithStatusObservedGeneration \<in> set opts) = (reterr = None)
       \<and> fst (Reconcile e req h) =
           (res, case helperPatch e h1 patched opts of
                   None \<Rightarrow> reterr
                 | Some err \<Rightarrow> NewAggregate [reterr, Some err])"
  using Reconcile_reaches_deferred [OF assms(1-3)] assms(4-6)
  by (auto simp: deferredPatch_def patchCluster_def Let_def split: option.splits)

theorem Reconcile_deferred_patch_witness:
  "clientGetCluster failingEnv [] ''ns'' ''c'' = Inr (clusterOf [ClusterFinalizer] None)
   \<and> \<not> IsPaused failingEnv (clusterOf [ClusterFinalizer] None)
   \<and> NewHelper failingEnv (clusterOf [ClusterFinalizer] None) = None
   \<and> reconcileBody failingEnv (clusterOf [ClusterFinalizer] None) [GetClusterCall ''ns'' ''c'']
       = ((\<lparr>Requeue = False, RequeueAfter = 10\<rparr>, Some (Aggregate [StatusError ''kubeconfig''])),
          (clusterOf [ClusterFinalizer] None)\<lparr>ControlPlaneInitialized := True\<rparr>,
          [GetClusterCall ''ns'' ''c'', GetActiveMachinesCall ''ns'' ''c''])
   \<and> Reconcile failingEnv requestOf []
       = ((\<lparr>Requeue = False, RequeueAfter = 10\<rparr>, Some (Aggregate [StatusError ''kubeconfig''])),
          [GetClusterCall ''ns'' ''c'', GetActiveMachinesCall ''ns'' ''c'',
           PatchCall ((clusterOf [ClusterFinalizer] None)\<lparr>ControlPlaneInitialized := True\<rparr>)
             [WithOwnedConditions
                [ReadyCondition, ControlPlaneReadyCondition, InfrastructureReadyCondition]]])"
proof -
  have env: "clientGetCluster failingEnv [] (ReqNamespace requestOf) (ReqName requestOf)
      = Inr (clusterOf [ClusterFinalizer] None)"
    "\<not> IsPaused failingEnv (clusterOf [ClusterFinalizer] None)"
    "NewHelper failingEnv (clusterOf [ClusterFinalizer] None) = None"
    "helperPatch failingEnv k x y = None"
    "SetSummary failingEnv x ts = x" "reconcilePhase failingEnv x = x" for k x y ts
    by (simp_all add: failingEnv_def phasesEnv_def machinesEnv_def requestOf_def)
  have body: "reconcileBody failingEnv (clusterOf [ClusterFinalizer] None)
        ([] @ [GetClusterCall (ReqNamespace requestOf) (ReqName requestOf)])
       = ((\<lparr>Requeue = False, RequeueAfter = 10\<rparr>, Some (Aggregate [StatusError ''kubeconfig''])),
          (clusterOf [ClusterFinalizer] None)\<lparr>ControlPlaneInitialized := True\<rparr>,
          [GetClusterCall ''ns'' ''c'', GetActiveMachinesCall ''ns'' ''c''])"
    by (simp add: reconcileBody_def ContainsFinalizer_def IsZero_def reconcile_def phasesOf_def
        LowestNonZeroResult_def NewAggregate_def reconcileControlPlaneInitialized_def
        emptyResult_def failingEnv_def phasesEnv_def machinesEnv_def requestOf_def
        scenario_defs)
  from Reconcile_deferred_patch [OF env(1-3) body refl refl]
  have "Reconcile failingEnv requestOf []
       = ((\<lparr>Requeue = False, RequeueAfter = 10\<rparr>, Some (Aggregate [StatusError ''kubeconfig''])),
          [GetClusterCall ''ns'' ''c'', GetActiveMachinesCall ''ns'' ''c'',
           PatchCall ((clusterOf [ClusterFinalizer] None)\<lparr>ControlPlaneInitialized := True\<rparr>)
             [WithOwnedConditions
                [ReadyCondition, ControlPlaneReadyCondition, InfrastructureReadyCondition]]])"
    by (simp add: env prod_eq_iff)
  with env body show ?thesis by (simp add: requestOf_def)
qed

text \<open>
  Claim C3 fails on the code. \<^verbatim>\<open>Reconcile\<close> tests for the finalizer before it looks at the
  deletion timestamp: a Cluster that is being deleted and does not carry the Cluster
  finalizer (here it is held by another finalizer) gets the Cluster finalizer added, and
  the Cluster with the new finalizer is what is patched.
\<close>

theorem Reconcile_adds_finalizer_counterexample:
  "clientGetCluster foregroundEnv [] ''ns'' ''c'' = Inr (clusterOf [''foregroundDeletion''] (Some 5))
   \<and> \<not> IsZero (DeletionTimestamp (ObjectMeta (clusterOf [''foregroundDeletion''] (Some 5))))
   \<and> ClusterFinalizer \<notin> set (Finalizers (ObjectMeta (clusterOf [''foregroundDeletion''] (Some 5))))
   \<and> Reconcile foregroundEnv requestOf []
       = ((emptyResult, None),
          [GetClusterCall ''ns'' ''c'',
           PatchCall (clusterOf [''foregroundDeletion'', ClusterFinalizer] (Some 5))
             [WithStatusObservedGeneration,
              WithOwnedConditions
                [ReadyCondition, ControlPlaneReadyCondition, InfrastructureReadyCondition]]])"
  by (simp add: Reconcile_def deferredPatch_def patchCluster_def reconcileBody_def
      ContainsFinalizer_def AddFinalizer_def setFinalizers_def IsZero_def Let_def
      foregroundEnv_def requestOf_def scenario_defs ClusterFinalizer_def)

text \<open>
  Claim C3 as amended. For a Cluster with a non-zero deletion timestamp that already
  carries the Cluster finalizer, the body of \<^verbatim>\<open>Reconcile\<close> is the deletion path and
  nothing else: the pass is \<^verbatim>\<open>reconcileDelete\<close> followed by the deferred phase and patch
  step, and every finalizer of the Cluster that \<^verbatim>\<open>reconcileDelete\<close> leaves was there
  before.
\<close>

theorem Reconcile_deleting_cluster:
  assumes "clientGetCluster e h (ReqNamespace req) (ReqName req) = Inr c"
    and "\<not> IsPaused e c" and "NewHelper e c = None"
    and "\<not> IsZero (DeletionTimestamp (ObjectMeta c))"
    and "ContainsFinalizer c ClusterFinalizer"
    and "h1 = h @ [GetClusterCall (ReqNamespace req) (ReqName req)]"
  shows "reconcileBody e c h1 = reconcileDelete e c h1
       \<and> Reconcile e req h =
           (case deferredPatch e (reconcileDelete e c h1) of (out, c2, h2) \<Rightarrow> (out, h2))
       \<and> set (Finalizers (ObjectMeta (fst (snd (reconcileDelete e c h1)))))
           \<subseteq> set (Finalizers (ObjectMeta c))"
proof -
  have body: "reconcileBody e c h1 = reconcileDelete e c h1"
    using assms(4,5) by (simp add: reconcileBody_def)
  obtain out c' h' where run: "reconcileDelete e c h1 = (out, c', h')"
    by (metis prod.exhaust)
  from reconcileDelete_adds_no_finalizer [OF run]
  have "set (Finalizers (ObjectMeta c')) \<subseteq> set (Finalizers (ObjectMeta c))"
    by auto
  with run body Reconcile_reaches_deferred [OF assms(1-3)] assms(6)
  show ?thesis by simp
qed

theorem Reconcile_deleting_cluster_witness:
  "clientGetCluster deletingEnv [] ''ns'' ''c'' = Inr clusterWithProvider
   \<and> \<not> IsPaused deletingEnv clusterWithProvider
   \<and> NewHelper deletingEnv clusterWithProvider = None
   \<and> \<not> IsZero (DeletionTimestamp (ObjectMeta clusterWithProvider))
   \<and> ContainsFinalizer clusterWithProvider ClusterFinalizer
   \<and> reconcileBody deletingEnv clusterWithProvider [GetClusterCall ''ns'' ''c'']
       = reconcileDelete deletingEnv clusterWithProvider [GetClusterCall ''ns'' ''c'']
   \<and> set (Finalizers (ObjectMeta (fst (snd
        (reconcileDelete deletingEnv clusterWithProvider [GetClusterCall ''ns'' ''c''])))))
       \<subseteq> set (Finalizers (ObjectMeta clusterWithProvider))"
proof -
  have env: "clientGetCluster deletingEnv [] (ReqNamespace requestOf) (ReqName requestOf)
      = Inr clusterWithProvider"
    "\<not> IsPaused deletingEnv clusterWithProvider"
    "NewHelper deletingEnv clusterWithProvider = None"
    by (simp_all add: deletingEnv_def providerEnv_def requestOf_def)
  have c: "\<not> IsZero (DeletionTimestamp (ObjectMeta clusterWithProvider))"
    "ContainsFinalizer clusterWithProvider ClusterFinalizer"
    by (simp_all add: clusterWithProvider_def scenario_defs IsZero_def ContainsFinalizer_def)
  from Reconcile_deleting_cluster [OF env c refl] env c
  show ?thesis by (simp add: requestOf_def)
qed

end
